theory Spec2Isabelle
  imports Complex_Main "HOL-Library.Word"
begin

section \<open>Data model of \<^verbatim>\<open>vr_telemetry.h\<close>\<close>

text \<open>
  The control core of the headset simulator lives in \<^verbatim>\<open>src/vr_embedded.c\<close>. Its state is a
  handful of file-scope variables; the model collects them in one record and every C
  function becomes a function from that record to the updated record.

  \<^item> \<^verbatim>\<open>uint32_t\<close> and \<^verbatim>\<open>uint8_t\<close> are words, so \<open>+\<close> and \<open>-\<close> wrap as in C and
    \<open>div\<close>, \<open><\<close>, \<open>\<le>\<close> are the unsigned ones.
  \<^item> Operations that do not come back are values of a sum type: locking the system mutex
    a second time from the thread that holds it, and dividing by a rate of zero.
  \<^item> Values the program draws from outside (the \<^verbatim>\<open>rand()\<close> of the self-test, the result of
    connecting to the broker, the result of a publish) are arguments.
  \<^item> A \<^verbatim>\<open>float\<close> is the real number it denotes. Every arithmetic result is passed
    through the rounding of its precision (single for an operation on two \<^verbatim>\<open>float\<close>s,
    double once a \<^verbatim>\<open>double\<close> is involved, single again for a store into a \<^verbatim>\<open>float\<close>),
    and both roundings and the library sine are arguments (record \<open>fpu\<close>), so that no
    theorem depends on an idealised arithmetic.
\<close>

type_synonym uint32_t = "32 word"

type_synonym uint8_t = "8 word"

datatype vr_system_state_t =
    VR_SYSTEM_INIT
  | VR_SYSTEM_READY
  | VR_SYSTEM_TRACKING
  | VR_SYSTEM_ERROR
  | VR_SYSTEM_SLEEP
  | VR_SYSTEM_SHUTDOWN

record vr_embedded_config_t =
  system_clock_hz :: uint32_t
  sensor_update_hz :: uint32_t
  telemetry_rate_hz :: uint32_t
  watchdog_enabled :: bool
  watchdog_timeout_ms :: uint32_t
  power_save_enabled :: bool
  cpu_sleep_level :: uint8_t

record vr_embedded_status_t =
  state :: vr_system_state_t
  uptime_ms :: uint32_t
  last_watchdog_reset :: uint32_t
  error_count :: uint32_t
  reset_count :: uint32_t
  sensors_initialized :: bool
  communication_ready :: bool

text \<open>
  A \<^verbatim>\<open>float\<close> that may be a NaN. Only the square root of the quaternion reconstruction can
  produce one, so only that field has this type.
\<close>

datatype c_float = Fin real | NaN

text \<open>
  The telemetry packet, restricted to the fields the scheduler and the properties below talk
  about: the frame id, the head orientation quaternion (\<^verbatim>\<open>head_orientation.x\<close> is \<open>qx\<close>, and
  so on) and the battery level. The remaining fields are sinusoids of the simulation time
  that are written by \<^verbatim>\<open>vr_sensors_update\<close> and read only by the serializer. The battery
  level is \<open>None\<close> when the C standard leaves the value of the conversion undefined.
\<close>

record vr_telemetry_packet_t =
  frame_id :: uint32_t
  qx :: real
  qy :: real
  qz :: real
  qw :: c_float
  battery_level :: "uint8_t option"

text \<open>
  The file-scope variables of \<^verbatim>\<open>vr_embedded.c\<close>, the two function-local statics of
  \<^verbatim>\<open>vr_sensors_update\<close>, the connection flag of \<^verbatim>\<open>vr_rabbitmq.c\<close>, and the two effects on the
  outside that properties mention: the packets handed to the broker (\<open>published\<close>) and the
  error codes printed by \<^verbatim>\<open>vr_error_handler\<close> (\<open>error_log\<close>). The mutex is the flag
  "held".
\<close>

record globals =
  g_embedded_config :: vr_embedded_config_t
  g_embedded_status :: vr_embedded_status_t
  g_telemetry_packet :: vr_telemetry_packet_t
  g_system_running :: bool
  g_system_mutex :: bool
  g_system_tick :: uint32_t
  g_last_sensor_update :: uint32_t
  g_last_telemetry_send :: uint32_t
  g_last_watchdog_feed :: uint32_t
  g_sensor_buffer_index :: uint8_t
  g_system_voltage :: real
  g_system_current :: real
  g_power_save_active :: bool
  simulation_time :: real
  frame_counter :: uint32_t
  g_connected :: bool
  published :: "vr_telemetry_packet_t list"
  error_log :: "uint32_t list"

text \<open>
  The two ways in which an operation does not return: \<^verbatim>\<open>pthread_mutex_lock\<close> on the mutex
  the caller holds, and an integer division by zero.
\<close>

datatype fault = Relock | DivByZero

text \<open>The floating-point environment: rounding to binary32, to binary64, and \<^verbatim>\<open>sin\<close>.\<close>

record fpu =
  f32 :: "real \<Rightarrow> real"
  f64 :: "real \<Rightarrow> real"
  c_sin :: "real \<Rightarrow> real"

text \<open>The error codes that the properties mention.\<close>

definition VR_ERROR_SENSOR_INIT_FAILED :: uint32_t where
  "VR_ERROR_SENSOR_INIT_FAILED = 0x01"

definition VR_ERROR_COMM_TIMEOUT :: uint32_t where
  "VR_ERROR_COMM_TIMEOUT = 0x02"

definition VR_ERROR_WATCHDOG_TIMEOUT :: uint32_t where
  "VR_ERROR_WATCHDOG_TIMEOUT = 0x03"

definition VR_ERROR_POWER_LOW :: uint32_t where
  "VR_ERROR_POWER_LOW = 0x04"

section \<open>The system mutex\<close>

text \<open>
  \<^verbatim>\<open>g_system_mutex\<close> is initialised with \<^verbatim>\<open>PTHREAD_MUTEX_INITIALIZER\<close>: it is not recursive.
  The core runs on one thread, so the only way to find the mutex held is to hold it
  oneself, and then \<^verbatim>\<open>pthread_mutex_lock\<close> does not return.
\<close>

definition pthread_mutex_lock :: "globals \<Rightarrow> fault + globals" where
  "pthread_mutex_lock s =
     (if g_system_mutex s then Inl Relock else Inr (s\<lparr>g_system_mutex := True\<rparr>))"

definition pthread_mutex_unlock :: "globals \<Rightarrow> globals" where
  "pthread_mutex_unlock s = s\<lparr>g_system_mutex := False\<rparr>"

text \<open>Sequencing of steps that may not return.\<close>

definition and_then :: "fault + 'a \<Rightarrow> ('a \<Rightarrow> fault + 'b) \<Rightarrow> fault + 'b" where
  "and_then r f = (case r of Inl e \<Rightarrow> Inl e | Inr v \<Rightarrow> f v)"

section \<open>State access and error handling\<close>

definition vr_embedded_get_state :: "globals \<Rightarrow> fault + (vr_system_state_t \<times> globals)" where
  "vr_embedded_get_state s =
     and_then (pthread_mutex_lock s)
       (\<lambda>s1. Inr (state (g_embedded_status s1), pthread_mutex_unlock s1))"

definition vr_embedded_set_state :: "vr_system_state_t \<Rightarrow> globals \<Rightarrow> fault + globals" where
  "vr_embedded_set_state st s =
     and_then (pthread_mutex_lock s)
       (\<lambda>s1. Inr (pthread_mutex_unlock
                (s1\<lparr>g_embedded_status := (g_embedded_status s1)\<lparr>state := st\<rparr>\<rparr>)))"

definition vr_error_handler :: "uint32_t \<Rightarrow> globals \<Rightarrow> fault + globals" where
  "vr_error_handler error_code s =
     (let s1 = s\<lparr>g_embedded_status :=
                   (g_embedded_status s)\<lparr>error_count := error_count (g_embedded_status s) + 1\<rparr>,
                 error_log := error_log s @ [error_code]\<rparr>
      in if error_count (g_embedded_status s1) > 5
         then vr_embedded_set_state VR_SYSTEM_ERROR s1
         else Inr s1)"

definition vr_get_error_count :: "globals \<Rightarrow> uint32_t" where
  "vr_get_error_count s = error_count (g_embedded_status s)"

definition vr_get_system_tick :: "globals \<Rightarrow> uint32_t" where
  "vr_get_system_tick s = g_system_tick s"

section \<open>Sensors\<close>

text \<open>
  The self-test draws one \<^verbatim>\<open>rand()\<close> value, in its sixth round, and fails when that value
  modulo 100 is below 5.
\<close>

definition vr_sensors_self_test :: "nat \<Rightarrow> bool" where
  "vr_sensors_self_test rand_value = (\<not> rand_value mod 100 < 5)"

definition vr_sensors_init :: "nat \<Rightarrow> globals \<Rightarrow> fault + globals" where
  "vr_sensors_init rand_value s =
     (let s1 = s\<lparr>g_sensor_buffer_index := 0,
                 g_telemetry_packet :=
                   \<lparr>frame_id = 0, qx = 0, qy = 0, qz = 0, qw = Fin 1,
                    battery_level = Some 100\<rparr>\<rparr>
      in if \<not> vr_sensors_self_test rand_value
         then vr_error_handler VR_ERROR_SENSOR_INIT_FAILED s1
         else Inr s1)"

text \<open>
  Conversion of a \<^verbatim>\<open>float\<close> to \<^verbatim>\<open>uint8_t\<close> (C99 6.3.1.4): the fractional part is discarded,
  and the value is defined only if the integral part fits the type.
\<close>

definition c_trunc :: "real \<Rightarrow> int" where
  "c_trunc v = (if 0 \<le> v then \<lfloor>v\<rfloor> else \<lceil>v\<rceil>)"

definition float_to_uint8 :: "real \<Rightarrow> uint8_t option" where
  "float_to_uint8 v =
     (if 0 \<le> c_trunc v \<and> c_trunc v \<le> 255 then Some (word_of_int (c_trunc v)) else None)"

text \<open>
  The three small-angle components and the radicand of the reconstruction, as the
  expressions of the source evaluate: the product \<^verbatim>\<open>simulation_time * 0.2f\<close> in single
  precision, the sine and its product with the amplitude in double precision, the store
  into the \<^verbatim>\<open>float\<close> field, and the sum of squares in single precision, left to right.
\<close>

definition orientation_component :: "fpu \<Rightarrow> real \<Rightarrow> real \<Rightarrow> real \<Rightarrow> real" where
  "orientation_component fp t freq amp =
     f32 fp (f64 fp (c_sin fp (f32 fp (t * f32 fp freq)) * f32 fp amp))"

definition radicand :: "fpu \<Rightarrow> real \<Rightarrow> real \<Rightarrow> real \<Rightarrow> real" where
  "radicand fp x y z =
     f32 fp (1 - f32 fp (f32 fp (f32 fp (x * x) + f32 fp (y * y)) + f32 fp (z * z)))"

definition c_sqrt :: "fpu \<Rightarrow> real \<Rightarrow> c_float" where
  "c_sqrt fp v = (if v < 0 then NaN else Fin (f64 fp (sqrt v)))"

definition store_float :: "fpu \<Rightarrow> c_float \<Rightarrow> c_float" where
  "store_float fp v = (case v of NaN \<Rightarrow> NaN | Fin r \<Rightarrow> Fin (f32 fp r))"

definition battery_value :: "fpu \<Rightarrow> real \<Rightarrow> real" where
  "battery_value fp t = f32 fp (100 - f32 fp (t * f32 fp (1 / 10)))"

definition vr_sensors_update :: "fpu \<Rightarrow> globals \<Rightarrow> globals" where
  "vr_sensors_update fp s =
     (let t = f32 fp (simulation_time s + f32 fp (1 / 1000));
          x = orientation_component fp t (2 / 10) (1 / 10);
          y = orientation_component fp t (15 / 100) (2 / 10);
          z = orientation_component fp t (1 / 10) (5 / 100)
      in s\<lparr>simulation_time := t,
           frame_counter := frame_counter s + 1,
           g_telemetry_packet :=
             \<lparr>frame_id = frame_counter s, qx = x, qy = y, qz = z,
              qw = store_float fp (c_sqrt fp (radicand fp x y z)),
              battery_level = float_to_uint8 (battery_value fp t)\<rparr>,
           g_sensor_buffer_index := (g_sensor_buffer_index s + 1) mod 32\<rparr>)"

section \<open>Telemetry\<close>

definition vr_rabbitmq_init :: "bool \<Rightarrow> globals \<Rightarrow> bool \<times> globals" where
  "vr_rabbitmq_init connect_ok s =
     (if connect_ok then (True, s\<lparr>g_connected := True\<rparr>) else (False, s))"

definition vr_rabbitmq_is_connected :: "globals \<Rightarrow> bool" where
  "vr_rabbitmq_is_connected s = g_connected s"

text \<open>
  \<^verbatim>\<open>vr_rabbitmq_send_telemetry\<close> returns 0 (here \<open>True\<close>) when the packet was serialized and
  published. \<open>publish_ok\<close> is the outcome of serializing and publishing.
\<close>

definition vr_rabbitmq_send_telemetry :: "bool \<Rightarrow> globals \<Rightarrow> bool \<times> globals" where
  "vr_rabbitmq_send_telemetry publish_ok s =
     (if \<not> g_connected s then (False, s)
      else if publish_ok then (True, s\<lparr>published := published s @ [g_telemetry_packet s]\<rparr>)
      else (False, s))"

definition vr_telemetry_init :: "bool \<Rightarrow> globals \<Rightarrow> globals" where
  "vr_telemetry_init connect_ok s =
     (case vr_rabbitmq_init connect_ok s of
        (ok, s1) \<Rightarrow>
          if \<not> ok
          then s1\<lparr>g_embedded_status := (g_embedded_status s1)\<lparr>communication_ready := False\<rparr>\<rparr>
          else s1)"

definition vr_telemetry_is_ready :: "globals \<Rightarrow> bool" where
  "vr_telemetry_is_ready s =
     (communication_ready (g_embedded_status s) \<and> vr_rabbitmq_is_connected s)"

definition vr_telemetry_send_packet :: "bool \<Rightarrow> globals \<Rightarrow> globals" where
  "vr_telemetry_send_packet publish_ok s =
     (if \<not> vr_telemetry_is_ready s then s
      else case vr_rabbitmq_send_telemetry publish_ok s of
             (ok, s1) \<Rightarrow>
               if \<not> ok
               then s1\<lparr>g_embedded_status :=
                         (g_embedded_status s1)\<lparr>error_count := error_count (g_embedded_status s1) + 1\<rparr>\<rparr>
               else s1)"

definition vr_telemetry_set_rate :: "uint32_t \<Rightarrow> globals \<Rightarrow> globals" where
  "vr_telemetry_set_rate rate_hz s =
     s\<lparr>g_embedded_config := (g_embedded_config s)\<lparr>telemetry_rate_hz := rate_hz\<rparr>\<rparr>"

section \<open>Power and watchdog\<close>

definition vr_power_init :: "fpu \<Rightarrow> globals \<Rightarrow> globals" where
  "vr_power_init fp s =
     s\<lparr>g_system_voltage := f32 fp (33 / 10),
       g_system_current := f32 fp (5 / 10),
       g_power_save_active := False\<rparr>"

definition vr_power_enter_sleep :: "uint8_t \<Rightarrow> globals \<Rightarrow> globals" where
  "vr_power_enter_sleep sleep_level s =
     (if sleep_level > 0 then (s\<lparr>g_power_save_active := True\<rparr>)\<lparr>g_power_save_active := False\<rparr>
      else s)"

definition vr_power_wake_up :: "globals \<Rightarrow> globals" where
  "vr_power_wake_up s = s\<lparr>g_power_save_active := False\<rparr>"

definition vr_watchdog_init :: "uint32_t \<Rightarrow> globals \<Rightarrow> globals" where
  "vr_watchdog_init timeout_ms s =
     s\<lparr>g_embedded_status := (g_embedded_status s)\<lparr>last_watchdog_reset := g_system_tick s\<rparr>\<rparr>"

definition vr_watchdog_feed :: "globals \<Rightarrow> globals" where
  "vr_watchdog_feed s =
     s\<lparr>g_embedded_status := (g_embedded_status s)\<lparr>last_watchdog_reset := g_system_tick s\<rparr>\<rparr>"

section \<open>Initialisation and reset\<close>

definition default_config :: vr_embedded_config_t where
  "default_config =
     \<lparr>system_clock_hz = 168000000, sensor_update_hz = 1000, telemetry_rate_hz = 60,
      watchdog_enabled = True, watchdog_timeout_ms = 5000, power_save_enabled = True,
      cpu_sleep_level = 1\<rparr>"

definition zero_status :: vr_embedded_status_t where
  "zero_status =
     \<lparr>state = VR_SYSTEM_INIT, uptime_ms = 0, last_watchdog_reset = 0, error_count = 0,
      reset_count = 0, sensors_initialized = False, communication_ready = False\<rparr>"

text \<open>
  \<^verbatim>\<open>vr_embedded_init\<close>: the argument is \<open>None\<close> for a null pointer. The \<^verbatim>\<open>memset\<close> clears every
  field of the status, the reset counter among them.
\<close>

definition vr_embedded_init ::
  "fpu \<Rightarrow> vr_embedded_config_t option \<Rightarrow> nat \<Rightarrow> bool \<Rightarrow> globals \<Rightarrow> fault + globals" where
  "vr_embedded_init fp config rand_value connect_ok s =
     and_then (pthread_mutex_lock s) (\<lambda>s1.
       let s2 = s1\<lparr>g_embedded_config := (case config of Some c \<Rightarrow> c | None \<Rightarrow> default_config)\<rparr>;
           s3 = s2\<lparr>g_embedded_status := zero_status\<rparr>
       in and_then (vr_sensors_init rand_value s3) (\<lambda>s4.
            let s5 = vr_power_init fp s4;
                s6 = (if watchdog_enabled (g_embedded_config s5)
                      then vr_watchdog_init (watchdog_timeout_ms (g_embedded_config s5)) s5
                      else s5);
                s7 = vr_telemetry_init connect_ok s6;
                s8 = s7\<lparr>g_embedded_status :=
                          (g_embedded_status s7)\<lparr>state := VR_SYSTEM_READY,
                                                 sensors_initialized := True,
                                                 communication_ready := True\<rparr>\<rparr>
            in Inr (pthread_mutex_unlock s8)))"

definition vr_system_reset :: "fpu \<Rightarrow> nat \<Rightarrow> bool \<Rightarrow> globals \<Rightarrow> fault + globals" where
  "vr_system_reset fp rand_value connect_ok s =
     (let st = g_embedded_status s;
          s1 = s\<lparr>g_embedded_status :=
                   st\<lparr>reset_count := reset_count st + 1, error_count := 0,
                      state := VR_SYSTEM_INIT\<rparr>\<rparr>
      in vr_embedded_init fp (Some (g_embedded_config s1)) rand_value connect_ok s1)"

section \<open>The tick handler and the main loop\<close>

definition vr_embedded_system_tick :: "globals \<Rightarrow> fault + globals" where
  "vr_embedded_system_tick s =
     and_then (pthread_mutex_lock s) (\<lambda>s1.
       let s2 = s1\<lparr>g_system_tick := g_system_tick s1 + 1\<rparr>;
           s3 = s2\<lparr>g_embedded_status := (g_embedded_status s2)\<lparr>uptime_ms := g_system_tick s2\<rparr>\<rparr>
       in and_then
            (if error_count (g_embedded_status s3) > 10
             then and_then (vr_embedded_set_state VR_SYSTEM_ERROR s3)
                    (vr_error_handler VR_ERROR_SENSOR_INIT_FAILED)
             else Inr s3)
            (\<lambda>s4. and_then
               (if g_system_voltage s4 < 3 then vr_error_handler VR_ERROR_POWER_LOW s4
                else Inr s4)
               (\<lambda>s5. Inr (pthread_mutex_unlock s5))))"

text \<open>
  One pass through the body of the \<^verbatim>\<open>while\<close> loop of \<^verbatim>\<open>vr_embedded_main_loop\<close>.
  \<open>publish_ok\<close> is the outcome of the publish, should this pass send a packet.
\<close>

definition main_loop_body :: "fpu \<Rightarrow> bool \<Rightarrow> globals \<Rightarrow> fault + globals" where
  "main_loop_body fp publish_ok s =
     and_then (vr_embedded_system_tick s) (\<lambda>s1.
       if sensor_update_hz (g_embedded_config s1) = 0 then Inl DivByZero
       else
         let sensor_interval = 1000 div sensor_update_hz (g_embedded_config s1);
             s2 = (if g_system_tick s1 - g_last_sensor_update s1 \<ge> sensor_interval
                   then (vr_sensors_update fp s1)\<lparr>g_last_sensor_update := g_system_tick s1\<rparr>
                   else s1)
         in if telemetry_rate_hz (g_embedded_config s2) = 0 then Inl DivByZero
            else
              let telemetry_interval = 1000 div telemetry_rate_hz (g_embedded_config s2);
                  s3 = (if g_system_tick s2 - g_last_telemetry_send s2 \<ge> telemetry_interval
                        then (vr_telemetry_send_packet publish_ok s2)
                               \<lparr>g_last_telemetry_send := g_system_tick s2\<rparr>
                        else s2);
                  s4 = (if watchdog_enabled (g_embedded_config s3)
                        then
                          let watchdog_interval = watchdog_timeout_ms (g_embedded_config s3) div 2
                          in if g_system_tick s3 - g_last_watchdog_feed s3 \<ge> watchdog_interval
                             then (vr_watchdog_feed s3)\<lparr>g_last_watchdog_feed := g_system_tick s3\<rparr>
                             else s3
                        else s3);
                  s5 = (if power_save_enabled (g_embedded_config s4) \<and> g_power_save_active s4
                        then vr_power_enter_sleep (cpu_sleep_level (g_embedded_config s4)) s4
                        else s4)
              in Inr s5)"

text \<open>
  The loop runs as long as \<^verbatim>\<open>g_system_running\<close> holds, and nothing clears that flag. The
  model runs one pass for each element of the list of publish outcomes.
\<close>

fun vr_embedded_main_loop :: "fpu \<Rightarrow> bool list \<Rightarrow> globals \<Rightarrow> fault + globals" where
  "vr_embedded_main_loop fp [] s = Inr s"
| "vr_embedded_main_loop fp (b # bs) s =
     (if g_system_running s
      then and_then (main_loop_body fp b s) (vr_embedded_main_loop fp bs)
      else Inr s)"

text \<open>The static initialisers: the state of the program before \<^verbatim>\<open>main\<close> runs.\<close>

definition zero_config :: vr_embedded_config_t where
  "zero_config =
     \<lparr>system_clock_hz = 0, sensor_update_hz = 0, telemetry_rate_hz = 0,
      watchdog_enabled = False, watchdog_timeout_ms = 0, power_save_enabled = False,
      cpu_sleep_level = 0\<rparr>"

definition boot :: "fpu \<Rightarrow> globals" where
  "boot fp =
     \<lparr>g_embedded_config = zero_config,
      g_embedded_status = zero_status,
      g_telemetry_packet =
        \<lparr>frame_id = 0, qx = 0, qy = 0, qz = 0, qw = Fin 0, battery_level = Some 0\<rparr>,
      g_system_running = True,
      g_system_mutex = False,
      g_system_tick = 0,
      g_last_sensor_update = 0,
      g_last_telemetry_send = 0,
      g_last_watchdog_feed = 0,
      g_sensor_buffer_index = 0,
      g_system_voltage = f32 fp (33 / 10),
      g_system_current = f32 fp (5 / 10),
      g_power_save_active = False,
      simulation_time = 0,
      frame_counter = 0,
      g_connected = False,
      published = [],
      error_log = []\<rparr>"

section \<open>Auxiliary definitions for the verification\<close>

abbreviation sys_state :: "globals \<Rightarrow> vr_system_state_t" where
  "sys_state s \<equiv> state (g_embedded_status s)"

abbreviation errors :: "globals \<Rightarrow> uint32_t" where
  "errors s \<equiv> error_count (g_embedded_status s)"

text \<open>
  What the tick handler leaves behind when it returns: the tick and the uptime advanced,
  and one power-low report if the voltage is below 3.0.
\<close>

definition ticked :: "globals \<Rightarrow> globals" where
  "ticked s =
     s\<lparr>g_system_tick := g_system_tick s + 1,
       g_embedded_status :=
         (g_embedded_status s)
           \<lparr>uptime_ms := g_system_tick s + 1,
            error_count := (if g_system_voltage s < 3 then errors s + 1 else errors s)\<rparr>,
       error_log := (if g_system_voltage s < 3 then error_log s @ [VR_ERROR_POWER_LOW]
                     else error_log s)\<rparr>"

text \<open>The four rate gates of the loop body, one after the other.\<close>

definition sensor_gate :: "fpu \<Rightarrow> globals \<Rightarrow> globals" where
  "sensor_gate fp s =
     (if g_system_tick s - g_last_sensor_update s \<ge> 1000 div sensor_update_hz (g_embedded_config s)
      then (vr_sensors_update fp s)\<lparr>g_last_sensor_update := g_system_tick s\<rparr>
      else s)"

definition telemetry_gate :: "bool \<Rightarrow> globals \<Rightarrow> globals" where
  "telemetry_gate publish_ok s =
     (if g_system_tick s - g_last_telemetry_send s
           \<ge> 1000 div telemetry_rate_hz (g_embedded_config s)
      then (vr_telemetry_send_packet publish_ok s)\<lparr>g_last_telemetry_send := g_system_tick s\<rparr>
      else s)"

definition watchdog_gate :: "globals \<Rightarrow> globals" where
  "watchdog_gate s =
     (if watchdog_enabled (g_embedded_config s)
         \<and> g_system_tick s - g_last_watchdog_feed s
              \<ge> watchdog_timeout_ms (g_embedded_config s) div 2
      then (vr_watchdog_feed s)\<lparr>g_last_watchdog_feed := g_system_tick s\<rparr>
      else s)"

definition power_gate :: "globals \<Rightarrow> globals" where
  "power_gate s =
     (if power_save_enabled (g_embedded_config s) \<and> g_power_save_active s
      then vr_power_enter_sleep (cpu_sleep_level (g_embedded_config s)) s
      else s)"

text \<open>The condition under which the tick handler locks the mutex it already holds.\<close>

definition tick_relocks :: "globals \<Rightarrow> bool" where
  "tick_relocks s =
     (g_system_mutex s \<or> 10 < errors s \<or> (g_system_voltage s < 3 \<and> 5 < errors s + 1))"

text \<open>A caller that reports one error after the other.\<close>

fun report_errors :: "uint32_t list \<Rightarrow> globals \<Rightarrow> fault + globals" where
  "report_errors [] s = Inr s"
| "report_errors (c # cs) s = and_then (vr_error_handler c s) (report_errors cs)"

text \<open>
  The operations of the core other than initialisation, reset and the explicit
  \<^verbatim>\<open>vr_embedded_set_state\<close>, and a caller that performs a sequence of them.
\<close>

datatype call =
    Report uint32_t
  | Tick
  | Pass bool
  | Update
  | Send bool
  | Feed
  | SetRate uint32_t
  | Sleep uint8_t
  | WakeUp

fun do_call :: "fpu \<Rightarrow> call \<Rightarrow> globals \<Rightarrow> fault + globals" where
  "do_call fp (Report c) s = vr_error_handler c s"
| "do_call fp Tick s = vr_embedded_system_tick s"
| "do_call fp (Pass b) s = main_loop_body fp b s"
| "do_call fp Update s = Inr (vr_sensors_update fp s)"
| "do_call fp (Send b) s = Inr (vr_telemetry_send_packet b s)"
| "do_call fp Feed s = Inr (vr_watchdog_feed s)"
| "do_call fp (SetRate r) s = Inr (vr_telemetry_set_rate r s)"
| "do_call fp (Sleep l) s = Inr (vr_power_enter_sleep l s)"
| "do_call fp WakeUp s = Inr (vr_power_wake_up s)"

fun run_calls :: "fpu \<Rightarrow> call list \<Rightarrow> globals \<Rightarrow> fault + globals" where
  "run_calls fp [] s = Inr s"
| "run_calls fp (c # cs) s = and_then (do_call fp c s) (run_calls fp cs)"

text \<open>
  What the proofs use of IEEE 754 rounding, in either precision and in any rounding mode:
  it is monotone, and it leaves alone every \<open>m / 2\<^sup>k\<close> with \<open>\<bar>m\<bar> \<le> 2\<^sup>2\<^sup>4\<close> and \<open>k \<le> 64\<close>,
  which binary32 and binary64 represent exactly.
\<close>

definition ieee_rounding :: "(real \<Rightarrow> real) \<Rightarrow> bool" where
  "ieee_rounding r \<longleftrightarrow>
     (\<forall>a b. a \<le> b \<longrightarrow> r a \<le> r b) \<and>
     (\<forall>(m::int) (k::nat). \<bar>m\<bar> \<le> 2 ^ 24 \<and> k \<le> 64 \<longrightarrow> r (of_int m / 2 ^ k) = of_int m / 2 ^ k)"

text \<open>The arithmetic without rounding error, used where a concrete instance is evaluated.\<close>

definition exact_fpu :: fpu where
  "exact_fpu = \<lparr>f32 = (\<lambda>v. v), f64 = (\<lambda>v. v), c_sin = sin\<rparr>"

text \<open>
  The state that \<^verbatim>\<open>vr_embedded_init(NULL)\<close> leaves behind at program start when the
  self-test passes and the broker accepts the connection.
\<close>

definition ready :: "fpu \<Rightarrow> globals" where
  "ready fp =
     \<lparr>g_embedded_config = default_config,
      g_embedded_status =
        \<lparr>state = VR_SYSTEM_READY, uptime_ms = 0, last_watchdog_reset = 0, error_count = 0,
         reset_count = 0, sensors_initialized = True, communication_ready = True\<rparr>,
      g_telemetry_packet =
        \<lparr>frame_id = 0, qx = 0, qy = 0, qz = 0, qw = Fin 1, battery_level = Some 100\<rparr>,
      g_system_running = True,
      g_system_mutex = False,
      g_system_tick = 0,
      g_last_sensor_update = 0,
      g_last_telemetry_send = 0,
      g_last_watchdog_feed = 0,
      g_sensor_buffer_index = 0,
      g_system_voltage = f32 fp (33 / 10),
      g_system_current = f32 fp (5 / 10),
      g_power_save_active = False,
      simulation_time = 0,
      frame_counter = 0,
      g_connected = True,
      published = [],
      error_log = []\<rparr>"

text \<open>The same state with a given error count and nothing reported.\<close>

definition ready_with_errors :: "uint32_t \<Rightarrow> globals" where
  "ready_with_errors n =
     (ready exact_fpu)\<lparr>g_embedded_status :=
                         (g_embedded_status (ready exact_fpu))\<lparr>error_count := n\<rparr>\<rparr>"

text \<open>The state in Error that six reports made after initialisation leave behind.\<close>

definition errored :: globals where
  "errored =
     (ready exact_fpu)\<lparr>g_embedded_status :=
                         (g_embedded_status (ready exact_fpu))
                           \<lparr>error_count := 6, state := VR_SYSTEM_ERROR\<rparr>,
                       error_log := replicate 6 VR_ERROR_COMM_TIMEOUT\<rparr>"

text \<open>A pass of the loop body that returns: the tick, then the four gates.\<close>

definition pass :: "fpu \<Rightarrow> bool \<Rightarrow> globals \<Rightarrow> globals" where
  "pass fp b s = power_gate (watchdog_gate (telemetry_gate b (sensor_gate fp (ticked s))))"

text \<open>Whether the sensor gate opens in the pass that starts in \<open>s\<close>.\<close>

definition sensor_due :: "globals \<Rightarrow> bool" where
  "sensor_due s \<longleftrightarrow>
     1000 div sensor_update_hz (g_embedded_config s)
       \<le> g_system_tick s + 1 - g_last_sensor_update s"

text \<open>The state after initialisation with the default configuration but a given sensor rate.\<close>

definition ready_at_rate :: "uint32_t \<Rightarrow> globals" where
  "ready_at_rate r =
     (ready exact_fpu)\<lparr>g_embedded_config := default_config\<lparr>sensor_update_hz := r\<rparr>\<rparr>"

text \<open>
  The state after initialisation when the timer interrupt has delivered 9999 ticks and the
  loop has not run since: nothing was fed for twice the watchdog timeout of 5000.
\<close>

definition stalled :: globals where
  "stalled =
     (ready exact_fpu)\<lparr>g_system_tick := 9999,
                        g_embedded_status :=
                          (g_embedded_status (ready exact_fpu))\<lparr>uptime_ms := 9999\<rparr>\<rparr>"

text \<open>The state after initialisation when the broker did not accept the connection.\<close>

definition disconnected :: globals where
  "disconnected = (ready exact_fpu)\<lparr>g_connected := False\<rparr>"

text \<open>
  What a caller of the status query can see of a run, and the tick of the last send: the
  error count, the state, the reports printed, \<^verbatim>\<open>g_last_telemetry_send\<close>.
\<close>

definition observed ::
  "fault + globals \<Rightarrow> fault + uint32_t \<times> vr_system_state_t \<times> uint32_t list \<times> uint32_t" where
  "observed r =
     (case r of
        Inl e \<Rightarrow> Inl e
      | Inr s \<Rightarrow> Inr (errors s, sys_state s, error_log s, g_last_telemetry_send s))"

section \<open>Basic facts\<close>

lemma and_then_Inr [simp]: "and_then (Inr v) f = f v"
  by (simp add: and_then_def)

lemma and_then_Inl [simp]: "and_then (Inl e) f = Inl e"
  by (simp add: and_then_def)

lemma and_then_eq_Inr:
  "and_then r f = Inr y \<longleftrightarrow> (\<exists>v. r = Inr v \<and> f v = Inr y)"
  by (cases r) simp_all

lemma set_state_held: "g_system_mutex s \<Longrightarrow> vr_embedded_set_state st s = Inl Relock"
  by (simp add: vr_embedded_set_state_def pthread_mutex_lock_def)

lemma set_state_free:
  "\<not> g_system_mutex s \<Longrightarrow>
   vr_embedded_set_state st s =
     Inr (s\<lparr>g_embedded_status := (g_embedded_status s)\<lparr>state := st\<rparr>\<rparr>)"
  by (simp add: vr_embedded_set_state_def pthread_mutex_lock_def pthread_mutex_unlock_def)

lemma handler_free:
  "\<not> g_system_mutex s \<Longrightarrow>
   vr_error_handler c s =
     Inr (s\<lparr>g_embedded_status :=
            (g_embedded_status s)
              \<lparr>error_count := errors s + 1,
               state := (if 5 < errors s + 1 then VR_SYSTEM_ERROR else sys_state s)\<rparr>,
           error_log := error_log s @ [c]\<rparr>)"
  by (simp add: vr_error_handler_def set_state_free Let_def)

lemma handler_held:
  "g_system_mutex s \<Longrightarrow>
   vr_error_handler c s =
     (if 5 < errors s + 1 then Inl Relock
      else Inr (s\<lparr>g_embedded_status := (g_embedded_status s)\<lparr>error_count := errors s + 1\<rparr>,
                 error_log := error_log s @ [c]\<rparr>))"
  by (simp add: vr_error_handler_def set_state_held Let_def)

text \<open>
  The tick handler holds the mutex while it calls \<^verbatim>\<open>vr_embedded_set_state\<close>, directly or
  through \<^verbatim>\<open>vr_error_handler\<close>, and that function locks the mutex again. So the handler
  returns exactly on the paths that do not change the state.
\<close>

lemma tick_result:
  "vr_embedded_system_tick s = (if tick_relocks s then Inl Relock else Inr (ticked s))"
proof (cases "g_system_mutex s")
  case True
  then show ?thesis
    by (simp add: vr_embedded_system_tick_def pthread_mutex_lock_def tick_relocks_def)
next
  case free: False
  show ?thesis
  proof (cases "10 < errors s")
    case True
    then show ?thesis using free
      by (simp add: vr_embedded_system_tick_def pthread_mutex_lock_def Let_def set_state_held
          tick_relocks_def)
  next
    case le: False
    show ?thesis
    proof (cases "g_system_voltage s < 3")
      case True
      then show ?thesis using free le
        by (simp add: vr_embedded_system_tick_def pthread_mutex_lock_def Let_def handler_held
            pthread_mutex_unlock_def ticked_def tick_relocks_def)
    next
      case False
      then show ?thesis using free le
        by (simp add: vr_embedded_system_tick_def pthread_mutex_lock_def Let_def
            pthread_mutex_unlock_def ticked_def tick_relocks_def)
    qed
  qed
qed

lemma ticked_config [simp]: "g_embedded_config (ticked s) = g_embedded_config s"
  by (simp add: ticked_def)

lemma sensor_gate_config [simp]: "g_embedded_config (sensor_gate fp s) = g_embedded_config s"
  by (simp add: sensor_gate_def vr_sensors_update_def Let_def)

lemma sensor_gate_fold:
  "(if 1000 div sensor_update_hz (g_embedded_config s) \<le> g_system_tick s - g_last_sensor_update s
    then (vr_sensors_update fp s)\<lparr>g_last_sensor_update := g_system_tick s\<rparr> else s)
   = sensor_gate fp s"
  by (simp add: sensor_gate_def)

lemma telemetry_gate_fold:
  "(if 1000 div telemetry_rate_hz (g_embedded_config s)
        \<le> g_system_tick s - g_last_telemetry_send s
    then (vr_telemetry_send_packet b s)\<lparr>g_last_telemetry_send := g_system_tick s\<rparr> else s)
   = telemetry_gate b s"
  by (simp add: telemetry_gate_def)

lemma watchdog_gate_fold:
  "(if watchdog_enabled (g_embedded_config s)
    then if watchdog_timeout_ms (g_embedded_config s) div 2
              \<le> g_system_tick s - g_last_watchdog_feed s
         then (vr_watchdog_feed s)\<lparr>g_last_watchdog_feed := g_system_tick s\<rparr> else s
    else s)
   = watchdog_gate s"
  by (simp add: watchdog_gate_def)

lemma power_gate_fold:
  "(if power_save_enabled (g_embedded_config s) \<and> g_power_save_active s
    then vr_power_enter_sleep (cpu_sleep_level (g_embedded_config s)) s else s)
   = power_gate s"
  by (simp add: power_gate_def)

lemma body_unfolded:
  "main_loop_body fp b s =
     and_then (vr_embedded_system_tick s) (\<lambda>s1.
       if sensor_update_hz (g_embedded_config s1) = 0 then Inl DivByZero
       else if telemetry_rate_hz (g_embedded_config (sensor_gate fp s1)) = 0 then Inl DivByZero
       else Inr (power_gate (watchdog_gate (telemetry_gate b (sensor_gate fp s1)))))"
  unfolding main_loop_body_def
  by (simp only: Let_def sensor_gate_fold telemetry_gate_fold watchdog_gate_fold power_gate_fold)

lemma body_result:
  "main_loop_body fp b s =
     (if tick_relocks s then Inl Relock
      else if sensor_update_hz (g_embedded_config s) = 0 then Inl DivByZero
      else if telemetry_rate_hz (g_embedded_config s) = 0 then Inl DivByZero
      else Inr (power_gate (watchdog_gate (telemetry_gate b (sensor_gate fp (ticked s))))))"
  unfolding body_unfolded tick_result
  by (cases "tick_relocks s") simp_all

lemma replicate_numeral_unfold: "replicate (numeral k) x = x # replicate (pred_numeral k) x"
  by (simp add: numeral_eq_Suc)

section \<open>One pass of the loop, field by field\<close>

lemma ticked_state [simp]: "sys_state (ticked s) = sys_state s"
  by (simp add: ticked_def)

lemma sensor_gate_status [simp]: "g_embedded_status (sensor_gate fp s) = g_embedded_status s"
  by (simp add: sensor_gate_def vr_sensors_update_def Let_def)

lemma send_packet_state [simp]: "sys_state (vr_telemetry_send_packet b s) = sys_state s"
  by (simp add: vr_telemetry_send_packet_def vr_rabbitmq_send_telemetry_def)

lemma telemetry_gate_state [simp]: "sys_state (telemetry_gate b s) = sys_state s"
  by (simp add: telemetry_gate_def)

lemma watchdog_gate_state [simp]: "sys_state (watchdog_gate s) = sys_state s"
  by (simp add: watchdog_gate_def vr_watchdog_feed_def)

lemma power_gate_status [simp]: "g_embedded_status (power_gate s) = g_embedded_status s"
  by (simp add: power_gate_def vr_power_enter_sleep_def)

lemma ticked_fields [simp]:
  "g_system_tick (ticked s) = g_system_tick s + 1"
  "g_last_sensor_update (ticked s) = g_last_sensor_update s"
  "g_last_telemetry_send (ticked s) = g_last_telemetry_send s"
  "g_last_watchdog_feed (ticked s) = g_last_watchdog_feed s"
  "frame_counter (ticked s) = frame_counter s"
  "g_system_running (ticked s) = g_system_running s"
  "g_system_mutex (ticked s) = g_system_mutex s"
  "g_system_voltage (ticked s) = g_system_voltage s"
  "g_connected (ticked s) = g_connected s"
  "simulation_time (ticked s) = simulation_time s"
  by (simp_all add: ticked_def)

lemma ticked_status:
  "\<not> g_system_voltage s < 3 \<Longrightarrow>
   g_embedded_status (ticked s) = (g_embedded_status s)\<lparr>uptime_ms := g_system_tick s + 1\<rparr>"
  "\<not> g_system_voltage s < 3 \<Longrightarrow> error_log (ticked s) = error_log s"
  by (simp_all add: ticked_def)

lemma sensor_gate_fields [simp]:
  "g_system_tick (sensor_gate fp s) = g_system_tick s"
  "g_last_telemetry_send (sensor_gate fp s) = g_last_telemetry_send s"
  "g_last_watchdog_feed (sensor_gate fp s) = g_last_watchdog_feed s"
  "g_system_running (sensor_gate fp s) = g_system_running s"
  "g_system_mutex (sensor_gate fp s) = g_system_mutex s"
  "g_system_voltage (sensor_gate fp s) = g_system_voltage s"
  "g_connected (sensor_gate fp s) = g_connected s"
  "error_log (sensor_gate fp s) = error_log s"
  "published (sensor_gate fp s) = published s"
  "g_power_save_active (sensor_gate fp s) = g_power_save_active s"
  by (simp_all add: sensor_gate_def vr_sensors_update_def Let_def)

lemma sensor_gate_cadence_fields:
  "g_last_sensor_update (sensor_gate fp s) =
     (if 1000 div sensor_update_hz (g_embedded_config s) \<le> g_system_tick s - g_last_sensor_update s
      then g_system_tick s else g_last_sensor_update s)"
  "frame_counter (sensor_gate fp s) =
     (if 1000 div sensor_update_hz (g_embedded_config s) \<le> g_system_tick s - g_last_sensor_update s
      then frame_counter s + 1 else frame_counter s)"
  by (simp_all add: sensor_gate_def vr_sensors_update_def Let_def)

lemma send_packet_fields [simp]:
  "g_system_tick (vr_telemetry_send_packet b s) = g_system_tick s"
  "g_last_sensor_update (vr_telemetry_send_packet b s) = g_last_sensor_update s"
  "g_last_watchdog_feed (vr_telemetry_send_packet b s) = g_last_watchdog_feed s"
  "frame_counter (vr_telemetry_send_packet b s) = frame_counter s"
  "g_system_running (vr_telemetry_send_packet b s) = g_system_running s"
  "g_system_mutex (vr_telemetry_send_packet b s) = g_system_mutex s"
  "g_system_voltage (vr_telemetry_send_packet b s) = g_system_voltage s"
  "g_embedded_config (vr_telemetry_send_packet b s) = g_embedded_config s"
  "error_log (vr_telemetry_send_packet b s) = error_log s"
  "g_connected (vr_telemetry_send_packet b s) = g_connected s"
  "g_power_save_active (vr_telemetry_send_packet b s) = g_power_save_active s"
  "last_watchdog_reset (g_embedded_status (vr_telemetry_send_packet b s))
     = last_watchdog_reset (g_embedded_status s)"
  by (simp_all add: vr_telemetry_send_packet_def vr_rabbitmq_send_telemetry_def)

lemma send_packet_errors:
  "errors (vr_telemetry_send_packet b s) =
     (if vr_telemetry_is_ready s \<and> \<not> b then errors s + 1 else errors s)"
  by (simp add: vr_telemetry_send_packet_def vr_rabbitmq_send_telemetry_def
      vr_telemetry_is_ready_def vr_rabbitmq_is_connected_def)

lemma telemetry_gate_fields [simp]:
  "g_system_tick (telemetry_gate b s) = g_system_tick s"
  "g_last_sensor_update (telemetry_gate b s) = g_last_sensor_update s"
  "g_last_watchdog_feed (telemetry_gate b s) = g_last_watchdog_feed s"
  "frame_counter (telemetry_gate b s) = frame_counter s"
  "g_system_running (telemetry_gate b s) = g_system_running s"
  "g_system_mutex (telemetry_gate b s) = g_system_mutex s"
  "g_system_voltage (telemetry_gate b s) = g_system_voltage s"
  "g_embedded_config (telemetry_gate b s) = g_embedded_config s"
  "error_log (telemetry_gate b s) = error_log s"
  "g_connected (telemetry_gate b s) = g_connected s"
  "g_power_save_active (telemetry_gate b s) = g_power_save_active s"
  "last_watchdog_reset (g_embedded_status (telemetry_gate b s))
     = last_watchdog_reset (g_embedded_status s)"
  by (simp_all add: telemetry_gate_def)

lemma telemetry_gate_errors:
  "errors (telemetry_gate b s) = errors s \<or> (\<not> b \<and> errors (telemetry_gate b s) = errors s + 1)"
  by (simp add: telemetry_gate_def send_packet_errors)

lemma watchdog_gate_fields [simp]:
  "g_system_tick (watchdog_gate s) = g_system_tick s"
  "g_last_sensor_update (watchdog_gate s) = g_last_sensor_update s"
  "g_last_telemetry_send (watchdog_gate s) = g_last_telemetry_send s"
  "frame_counter (watchdog_gate s) = frame_counter s"
  "g_system_running (watchdog_gate s) = g_system_running s"
  "g_system_mutex (watchdog_gate s) = g_system_mutex s"
  "g_system_voltage (watchdog_gate s) = g_system_voltage s"
  "g_embedded_config (watchdog_gate s) = g_embedded_config s"
  "error_log (watchdog_gate s) = error_log s"
  "errors (watchdog_gate s) = errors s"
  "g_connected (watchdog_gate s) = g_connected s"
  "g_power_save_active (watchdog_gate s) = g_power_save_active s"
  by (simp_all add: watchdog_gate_def vr_watchdog_feed_def)

lemma power_gate_fields [simp]:
  "g_system_tick (power_gate s) = g_system_tick s"
  "g_last_sensor_update (power_gate s) = g_last_sensor_update s"
  "g_last_telemetry_send (power_gate s) = g_last_telemetry_send s"
  "g_last_watchdog_feed (power_gate s) = g_last_watchdog_feed s"
  "frame_counter (power_gate s) = frame_counter s"
  "g_system_running (power_gate s) = g_system_running s"
  "g_system_mutex (power_gate s) = g_system_mutex s"
  "g_system_voltage (power_gate s) = g_system_voltage s"
  "g_embedded_config (power_gate s) = g_embedded_config s"
  "error_log (power_gate s) = error_log s"
  "g_connected (power_gate s) = g_connected s"
  by (simp_all add: power_gate_def vr_power_enter_sleep_def)

lemma pass_fields [simp]:
  "g_system_tick (pass fp b s) = g_system_tick s + 1"
  "g_system_running (pass fp b s) = g_system_running s"
  "g_system_mutex (pass fp b s) = g_system_mutex s"
  "g_system_voltage (pass fp b s) = g_system_voltage s"
  "g_embedded_config (pass fp b s) = g_embedded_config s"
  "sys_state (pass fp b s) = sys_state s"
  by (simp_all add: pass_def)

lemma pass_sensor:
  "g_last_sensor_update (pass fp b s) =
     (if sensor_due s then g_system_tick s + 1 else g_last_sensor_update s)"
  "frame_counter (pass fp b s) =
     (if sensor_due s then frame_counter s + 1 else frame_counter s)"
  by (simp_all add: pass_def sensor_gate_cadence_fields sensor_due_def)

lemma pass_errors:
  assumes "\<not> g_system_voltage s < 3"
  shows "errors (pass fp b s) = errors s \<or> (\<not> b \<and> errors (pass fp b s) = errors s + 1)"
proof -
  have "errors (sensor_gate fp (ticked s)) = errors s"
    using assms by (simp add: ticked_status)
  then show ?thesis
    using telemetry_gate_errors [of b "sensor_gate fp (ticked s)"] by (simp add: pass_def)
qed

lemma pass_error_log:
  "\<not> g_system_voltage s < 3 \<Longrightarrow> error_log (pass fp b s) = error_log s"
  by (simp add: pass_def ticked_status)

lemma body_pass:
  "main_loop_body fp b s =
     (if tick_relocks s then Inl Relock
      else if sensor_update_hz (g_embedded_config s) = 0 then Inl DivByZero
      else if telemetry_rate_hz (g_embedded_config s) = 0 then Inl DivByZero
      else Inr (pass fp b s))"
  by (simp add: body_result pass_def)

section \<open>The loop as an iteration of passes\<close>

lemma not_relocks:
  assumes "\<not> g_system_mutex s" and "\<not> g_system_voltage s < 3" and "unat (errors s) \<le> 10"
  shows "\<not> tick_relocks s"
proof -
  have "\<not> 10 < errors s"
    using assms(3) by (simp add: word_less_nat_alt)
  then show ?thesis
    using assms(1,2) by (simp add: tick_relocks_def)
qed

lemma pass_errors_bound:
  assumes "\<not> g_system_voltage s < 3" and "unat (errors s) + length (filter Not (b # bs)) \<le> 10"
  shows "unat (errors (pass fp b s)) + length (filter Not bs) \<le> 10"
proof -
  from pass_errors [OF assms(1), of fp b]
  consider "errors (pass fp b s) = errors s"
    | "\<not> b" and "errors (pass fp b s) = errors s + 1"
    by blast
  then show ?thesis
  proof cases
    case 1
    then show ?thesis using assms(2) by (simp split: if_splits)
  next
    case 2
    have "unat (errors s) + 1 < 2 ^ 32"
      using assms(2) by simp
    then have "unat (errors s + 1) = unat (errors s) + 1"
      by (simp add: unat_word_ariths)
    then show ?thesis using 2 assms(2) by simp
  qed
qed

lemma loop_returns:
  assumes "\<not> g_system_mutex s" and "\<not> g_system_voltage s < 3"
    and "sensor_update_hz (g_embedded_config s) \<noteq> 0"
    and "telemetry_rate_hz (g_embedded_config s) \<noteq> 0"
    and "g_system_running s"
    and "unat (errors s) + length (filter Not bs) \<le> 10"
  shows "vr_embedded_main_loop fp bs s = Inr (fold (pass fp) bs s)"
  using assms
proof (induction bs arbitrary: s)
  case Nil
  then show ?case by simp
next
  case (Cons b bs)
  have "unat (errors s) \<le> 10"
    using Cons.prems(6) by simp
  then have "\<not> tick_relocks s"
    using not_relocks Cons.prems(1,2) by blast
  then have step: "main_loop_body fp b s = Inr (pass fp b s)"
    using Cons.prems(3,4) by (simp add: body_pass)
  have "vr_embedded_main_loop fp bs (pass fp b s) = Inr (fold (pass fp) bs (pass fp b s))"
    using Cons.prems pass_errors_bound [OF Cons.prems(2) Cons.prems(6)]
    by (intro Cons.IH) simp_all
  then show ?case
    using step Cons.prems(5) by simp
qed

lemma fold_pass_fields [simp]:
  "g_system_tick (fold (pass fp) bs s) = g_system_tick s + word_of_nat (length bs)"
  "g_embedded_config (fold (pass fp) bs s) = g_embedded_config s"
  "sys_state (fold (pass fp) bs s) = sys_state s"
  by (induction bs arbitrary: s) simp_all

section \<open>The states used as instances, and how the program reaches them\<close>

lemma default_config_fields [simp]:
  "sensor_update_hz default_config = 1000"
  "telemetry_rate_hz default_config = 60"
  "watchdog_enabled default_config = True"
  "watchdog_timeout_ms default_config = 5000"
  by (simp_all add: default_config_def)

lemma ready_with_errors_fields [simp]:
  "g_system_mutex (ready_with_errors n) = False"
  "errors (ready_with_errors n) = n"
  "sys_state (ready_with_errors n) = VR_SYSTEM_READY"
  "g_system_voltage (ready_with_errors n) = 33 / 10"
  "g_system_tick (ready_with_errors n) = 0"
  "error_log (ready_with_errors n) = []"
  by (simp_all add: ready_with_errors_def ready_def exact_fpu_def)

lemma errored_fields [simp]:
  "g_system_mutex errored = False"
  "errors errored = 6"
  "sys_state errored = VR_SYSTEM_ERROR"
  "g_system_voltage errored = 33 / 10"
  by (simp_all add: errored_def ready_def exact_fpu_def)

lemma ready_at_rate_fields [simp]:
  "g_system_mutex (ready_at_rate r) = False"
  "g_system_voltage (ready_at_rate r) = 33 / 10"
  "g_system_running (ready_at_rate r) = True"
  "sensor_update_hz (g_embedded_config (ready_at_rate r)) = r"
  "telemetry_rate_hz (g_embedded_config (ready_at_rate r)) = 60"
  "errors (ready_at_rate r) = 0"
  "g_last_sensor_update (ready_at_rate r) = 0"
  "g_system_tick (ready_at_rate r) = 0"
  "frame_counter (ready_at_rate r) = 0"
  by (simp_all add: ready_at_rate_def ready_def exact_fpu_def default_config_def)

lemma stalled_fields [simp]:
  "g_system_mutex stalled = False"
  "g_system_voltage stalled = 33 / 10"
  "errors stalled = 0"
  "sys_state stalled = VR_SYSTEM_READY"
  "g_embedded_config stalled = default_config"
  "g_system_tick stalled = 9999"
  "g_last_watchdog_feed stalled = 0"
  "last_watchdog_reset (g_embedded_status stalled) = 0"
  "error_log stalled = []"
  by (simp_all add: stalled_def ready_def exact_fpu_def)

lemma exact_fpu_rounding [simp]:
  "ieee_rounding (f32 exact_fpu)" "ieee_rounding (f64 exact_fpu)"
  by (simp_all add: exact_fpu_def ieee_rounding_def)

text \<open>
  Initialisation at program start leaves \<open>ready\<close> behind, \<open>ready_at_rate\<close> when the
  configuration has another sensor rate, and \<open>disconnected\<close> when the broker does not accept
  the connection. Six reports take \<open>ready\<close> to \<open>errored\<close>, and 9999 ticks of the timer take it
  to \<open>stalled\<close>.
\<close>

lemma init_from_boot: "vr_embedded_init fp None 7 True (boot fp) = Inr (ready fp)"
  by (simp add: vr_embedded_init_def boot_def ready_def pthread_mutex_lock_def
      pthread_mutex_unlock_def vr_sensors_init_def vr_sensors_self_test_def vr_power_init_def
      vr_watchdog_init_def vr_telemetry_init_def vr_rabbitmq_init_def default_config_def
      zero_status_def Let_def)

lemma init_with_rate:
  "vr_embedded_init exact_fpu (Some (default_config\<lparr>sensor_update_hz := r\<rparr>)) 7 True
     (boot exact_fpu) = Inr (ready_at_rate r)"
  by (simp add: vr_embedded_init_def boot_def ready_at_rate_def ready_def pthread_mutex_lock_def
      pthread_mutex_unlock_def vr_sensors_init_def vr_sensors_self_test_def vr_power_init_def
      vr_watchdog_init_def vr_telemetry_init_def vr_rabbitmq_init_def default_config_def
      zero_status_def Let_def)

lemma init_without_broker:
  "vr_embedded_init exact_fpu None 7 False (boot exact_fpu) = Inr disconnected"
  by (simp add: vr_embedded_init_def boot_def disconnected_def ready_def pthread_mutex_lock_def
      pthread_mutex_unlock_def vr_sensors_init_def vr_sensors_self_test_def vr_power_init_def
      vr_watchdog_init_def vr_telemetry_init_def vr_rabbitmq_init_def default_config_def
      zero_status_def Let_def)

lemma six_reports:
  "report_errors (replicate 6 VR_ERROR_COMM_TIMEOUT) (ready exact_fpu) = Inr errored"
  by (simp add: replicate_numeral_unfold vr_error_handler_def vr_embedded_set_state_def
      pthread_mutex_lock_def pthread_mutex_unlock_def ready_def errored_def Let_def
      word_less_nat_alt)

lemma ticks_only:
  assumes "\<not> g_system_mutex s" and "\<not> g_system_voltage s < 3" and "unat (errors s) \<le> 10"
  shows "run_calls fp (replicate (Suc n) Tick) s =
           Inr (s\<lparr>g_system_tick := g_system_tick s + word_of_nat (Suc n),
                  g_embedded_status :=
                    (g_embedded_status s)\<lparr>uptime_ms := g_system_tick s + word_of_nat (Suc n)\<rparr>\<rparr>)"
  using assms
proof (induction n arbitrary: s)
  case 0
  have "\<not> tick_relocks s"
    using not_relocks 0 by blast
  then show ?case
    using 0(2) by (simp add: tick_result ticked_def)
next
  case (Suc n)
  have free: "\<not> tick_relocks s"
    using not_relocks Suc.prems by blast
  have "run_calls fp (replicate (Suc n) Tick) (ticked s) =
          Inr ((ticked s)\<lparr>g_system_tick := g_system_tick (ticked s) + word_of_nat (Suc n),
                  g_embedded_status :=
                    (g_embedded_status (ticked s))
                      \<lparr>uptime_ms := g_system_tick (ticked s) + word_of_nat (Suc n)\<rparr>\<rparr>)"
    using Suc.prems by (intro Suc.IH) (simp_all add: ticked_status)
  then show ?case
    using free Suc.prems(2) by (simp add: tick_result ticked_def add.assoc)
qed

lemma timer_ticks: "run_calls exact_fpu (replicate 9999 Tick) (ready exact_fpu) = Inr stalled"
proof -
  have "\<not> g_system_mutex (ready exact_fpu)" "\<not> g_system_voltage (ready exact_fpu) < 3"
    "unat (errors (ready exact_fpu)) \<le> 10"
    by (simp_all add: ready_def exact_fpu_def)
  from ticks_only [OF this, of exact_fpu 9998] show ?thesis
    by (simp add: stalled_def ready_def)
qed

section \<open>C1: error reports and escalation\<close>

lemma succ_above_five:
  fixes c :: uint32_t
  assumes "unat c + 1 < 2 ^ 32"
  shows "unat (c + 1) = unat c + 1" and "(5 < c + 1) = (6 \<le> unat c + 1)"
proof -
  show u: "unat (c + 1) = unat c + 1"
    using assms by (simp add: unat_word_ariths)
  show "(5 < c + 1) = (6 \<le> unat c + 1)"
    unfolding word_less_nat_alt u by simp arith
qed

lemma report_errors_free:
  assumes "\<not> g_system_mutex s" and "unat (errors s) + length cs < 2 ^ 32"
  shows "\<exists>s'. report_errors cs s = Inr s' \<and> \<not> g_system_mutex s' \<and>
          errors s' = errors s + word_of_nat (length cs) \<and>
          error_log s' = error_log s @ cs \<and>
          sys_state s' =
            (if cs \<noteq> [] \<and> 6 \<le> unat (errors s) + length cs then VR_SYSTEM_ERROR
             else sys_state s)"
  using assms
proof (induction cs arbitrary: s)
  case Nil
  then show ?case by simp
next
  case (Cons c cs)
  define s1 where
    "s1 = s\<lparr>g_embedded_status :=
              (g_embedded_status s)
                \<lparr>error_count := errors s + 1,
                 state := (if 5 < errors s + 1 then VR_SYSTEM_ERROR else sys_state s)\<rparr>,
            error_log := error_log s @ [c]\<rparr>"
  have step: "vr_error_handler c s = Inr s1"
    unfolding s1_def using handler_free [OF Cons.prems(1)] .
  have small: "unat (errors s) + 1 < 2 ^ 32"
    using Cons.prems(2) by simp
  have free: "\<not> g_system_mutex s1"
    using Cons.prems(1) by (simp add: s1_def)
  have e1: "errors s1 = errors s + 1" and l1: "error_log s1 = error_log s @ [c]"
    by (simp_all add: s1_def)
  have u1: "unat (errors s1) = unat (errors s) + 1"
    unfolding e1 using succ_above_five(1) [OF small] .
  have st1: "sys_state s1 = (if 6 \<le> unat (errors s) + 1 then VR_SYSTEM_ERROR else sys_state s)"
    using succ_above_five(2) [OF small] by (simp add: s1_def)
  have bound: "unat (errors s1) + length cs < 2 ^ 32"
    using Cons.prems(2) u1 by simp
  from Cons.IH [OF free bound] obtain s' where
    run: "report_errors cs s1 = Inr s'" and fr: "\<not> g_system_mutex s'" and
    cnt: "errors s' = errors s1 + word_of_nat (length cs)" and
    lg: "error_log s' = error_log s1 @ cs" and
    st: "sys_state s' =
           (if cs \<noteq> [] \<and> 6 \<le> unat (errors s1) + length cs then VR_SYSTEM_ERROR
            else sys_state s1)"
    by blast
  have "report_errors (c # cs) s = Inr s'"
    using step run by simp
  moreover have "errors s' = errors s + word_of_nat (length (c # cs))"
    using cnt e1 by simp
  moreover have "error_log s' = error_log s @ c # cs"
    using lg l1 by simp
  moreover have "sys_state s' =
      (if c # cs \<noteq> [] \<and> 6 \<le> unat (errors s) + length (c # cs) then VR_SYSTEM_ERROR
       else sys_state s)"
    unfolding st st1 u1 by (cases cs) auto
  ultimately show ?case using fr by blast
qed

lemma handler_keeps_error:
  "vr_error_handler c s = Inr s' \<Longrightarrow> sys_state s = VR_SYSTEM_ERROR \<Longrightarrow>
   sys_state s' = VR_SYSTEM_ERROR"
  by (cases "g_system_mutex s") (auto simp: handler_free handler_held split: if_splits)

lemma tick_keeps_state: "vr_embedded_system_tick s = Inr s' \<Longrightarrow> sys_state s' = sys_state s"
  by (auto simp: tick_result split: if_splits)

lemma body_keeps_state: "main_loop_body fp b s = Inr s' \<Longrightarrow> sys_state s' = sys_state s"
  by (auto simp: body_result split: if_splits)

lemma do_call_keeps_error:
  assumes "do_call fp c s = Inr s'" and "sys_state s = VR_SYSTEM_ERROR"
  shows "sys_state s' = VR_SYSTEM_ERROR"
proof (cases c)
  case (Report x)
  then show ?thesis using assms handler_keeps_error by simp
next
  case Tick
  then show ?thesis using assms tick_keeps_state by simp
next
  case (Pass b)
  then show ?thesis using assms body_keeps_state by simp
next
  case Update
  then show ?thesis using assms by (auto simp: vr_sensors_update_def Let_def)
next
  case (Send b)
  then show ?thesis using assms by auto
next
  case Feed
  then show ?thesis using assms by (auto simp: vr_watchdog_feed_def)
next
  case (SetRate r)
  then show ?thesis using assms by (auto simp: vr_telemetry_set_rate_def)
next
  case (Sleep l)
  then show ?thesis using assms by (auto simp: vr_power_enter_sleep_def)
next
  case WakeUp
  then show ?thesis using assms by (auto simp: vr_power_wake_up_def)
qed

lemma and_then_run_calls_nil [simp]: "and_then r (run_calls fp []) = r"
  by (cases r) simp_all

lemma run_calls_keeps_error:
  "run_calls fp cs s = Inr s' \<Longrightarrow> sys_state s = VR_SYSTEM_ERROR \<Longrightarrow>
   sys_state s' = VR_SYSTEM_ERROR"
proof (induction cs arbitrary: s)
  case Nil
  then show ?case by simp
next
  case (Cons c cs)
  from Cons.prems(1) obtain s1 where
    first: "do_call fp c s = Inr s1" and rest: "run_calls fp cs s1 = Inr s'"
    by (auto simp: and_then_eq_Inr)
  have "sys_state s1 = VR_SYSTEM_ERROR"
    using do_call_keeps_error [OF first Cons.prems(2)] .
  then show ?case using Cons.IH [OF rest] by simp
qed

text \<open>
  C1, as the code has it. Reports made while the mutex is free: each one increments the
  counter, and the state becomes Error with the report that takes the counter above 5, that
  is with the sixth report counted from zero, not with the fifth. And no report, tick, loop
  pass, sensor update, send, feed, rate change or sleep that returns takes the state out
  of Error.
\<close>

theorem error_reports_escalate_above_five:
  assumes "\<not> g_system_mutex s" and "unat (errors s) + length cs < 2 ^ 32"
  shows "(\<exists>s'. report_errors cs s = Inr s' \<and>
            errors s' = errors s + word_of_nat (length cs) \<and>
            sys_state s' =
              (if cs \<noteq> [] \<and> 6 \<le> unat (errors s) + length cs then VR_SYSTEM_ERROR
               else sys_state s)) \<and>
         (\<forall>t'. run_calls fp calls t = Inr t' \<and> sys_state t = VR_SYSTEM_ERROR
               \<longrightarrow> sys_state t' = VR_SYSTEM_ERROR)"
proof
  from report_errors_free [OF assms]
  show "\<exists>s'. report_errors cs s = Inr s' \<and>
            errors s' = errors s + word_of_nat (length cs) \<and>
            sys_state s' =
              (if cs \<noteq> [] \<and> 6 \<le> unat (errors s) + length cs then VR_SYSTEM_ERROR
               else sys_state s)"
    by blast
  show "\<forall>t'. run_calls fp calls t = Inr t' \<and> sys_state t = VR_SYSTEM_ERROR
               \<longrightarrow> sys_state t' = VR_SYSTEM_ERROR"
    using run_calls_keeps_error by blast
qed

theorem error_reports_escalate_above_five_witness:
  "\<not> g_system_mutex (ready_with_errors 0) \<and>
   unat (errors (ready_with_errors 0)) + length (replicate 6 VR_ERROR_COMM_TIMEOUT) < 2 ^ 32 \<and>
   (\<exists>s'. report_errors (replicate 6 VR_ERROR_COMM_TIMEOUT) (ready_with_errors 0) = Inr s' \<and>
         errors s' = 6 \<and> sys_state s' = VR_SYSTEM_ERROR) \<and>
   \<not> isl (run_calls exact_fpu [Tick, Report VR_ERROR_POWER_LOW] errored) \<and>
   sys_state errored = VR_SYSTEM_ERROR \<and>
   sys_state (projr (run_calls exact_fpu [Tick, Report VR_ERROR_POWER_LOW] errored))
     = VR_SYSTEM_ERROR"
proof -
  have h1: "\<not> g_system_mutex (ready_with_errors 0)" by simp
  have h2: "unat (errors (ready_with_errors 0)) + length (replicate 6 VR_ERROR_COMM_TIMEOUT)
              < 2 ^ 32"
    by simp
  have free: "\<not> g_system_mutex (ticked errored)"
    by (simp add: ticked_def)
  have run: "run_calls exact_fpu [Tick, Report VR_ERROR_POWER_LOW] errored
               = vr_error_handler VR_ERROR_POWER_LOW (ticked errored)"
    by (simp add: tick_result tick_relocks_def)
  have returns: "\<not> isl (run_calls exact_fpu [Tick, Report VR_ERROR_POWER_LOW] errored)"
    unfolding run by (simp add: handler_free [OF free])
  then obtain t' where t': "run_calls exact_fpu [Tick, Report VR_ERROR_POWER_LOW] errored = Inr t'"
    by (cases "run_calls exact_fpu [Tick, Report VR_ERROR_POWER_LOW] errored") auto
  note inst = error_reports_escalate_above_five [OF h1 h2,
      of exact_fpu "[Tick, Report VR_ERROR_POWER_LOW]" errored]
  from inst have "sys_state t' = VR_SYSTEM_ERROR"
    using t' by simp
  moreover from inst have
    "\<exists>s'. report_errors (replicate 6 VR_ERROR_COMM_TIMEOUT) (ready_with_errors 0) = Inr s' \<and>
         errors s' = 6 \<and> sys_state s' = VR_SYSTEM_ERROR"
    by simp
  ultimately show ?thesis
    using h1 returns t' by simp
qed

text \<open>
  The claim as stated fails: the report that takes the counter from 4 to 5 returns and
  leaves the state Ready.
\<close>

theorem fifth_report_counterexample:
  "\<not> g_system_mutex (ready_with_errors 4) \<and>
   errors (ready_with_errors 4) = 4 \<and>
   \<not> isl (vr_error_handler VR_ERROR_COMM_TIMEOUT (ready_with_errors 4)) \<and>
   errors (projr (vr_error_handler VR_ERROR_COMM_TIMEOUT (ready_with_errors 4))) = 5 \<and>
   sys_state (projr (vr_error_handler VR_ERROR_COMM_TIMEOUT (ready_with_errors 4)))
     = VR_SYSTEM_READY"
  by (simp add: handler_free)

section \<open>C2 and C7: initialisation and reset\<close>

lemma sensors_init_result:
  "\<exists>s'. vr_sensors_init rand_value (s\<lparr>g_embedded_status := zero_status\<rparr>) = Inr s' \<and>
        g_embedded_status s' =
          zero_status\<lparr>error_count := (if vr_sensors_self_test rand_value then 0 else 1)\<rparr> \<and>
        error_log s' =
          (if vr_sensors_self_test rand_value then error_log s
           else error_log s @ [VR_ERROR_SENSOR_INIT_FAILED]) \<and>
        g_system_mutex s' = g_system_mutex s \<and>
        g_embedded_config s' = g_embedded_config s"
proof (cases "vr_sensors_self_test rand_value")
  case True
  then show ?thesis by (simp add: vr_sensors_init_def zero_status_def)
next
  case False
  have small: "\<not> (5 :: uint32_t) < 0 + 1"
    by (simp add: word_less_nat_alt)
  show ?thesis
    using False small
    by (cases "g_system_mutex s")
       (simp_all add: vr_sensors_init_def vr_error_handler_def zero_status_def Let_def)
qed

lemma init_result:
  assumes "\<not> g_system_mutex s"
  shows "\<exists>s'. vr_embedded_init fp config rand_value connect_ok s = Inr s' \<and>
           sys_state s' = VR_SYSTEM_READY \<and>
           sensors_initialized (g_embedded_status s') \<and>
           communication_ready (g_embedded_status s') \<and>
           reset_count (g_embedded_status s') = 0 \<and>
           errors s' = (if vr_sensors_self_test rand_value then 0 else 1) \<and>
           error_log s' =
             (if vr_sensors_self_test rand_value then error_log s
              else error_log s @ [VR_ERROR_SENSOR_INIT_FAILED]) \<and>
           \<not> g_system_mutex s'"
proof -
  define s2 where
    "s2 = s\<lparr>g_system_mutex := True,
            g_embedded_config := (case config of Some c \<Rightarrow> c | None \<Rightarrow> default_config)\<rparr>"
  from sensors_init_result [of rand_value s2] obtain s4 where
    init: "vr_sensors_init rand_value (s2\<lparr>g_embedded_status := zero_status\<rparr>) = Inr s4" and
    st: "g_embedded_status s4 =
           zero_status\<lparr>error_count := (if vr_sensors_self_test rand_value then 0 else 1)\<rparr>" and
    lg: "error_log s4 =
           (if vr_sensors_self_test rand_value then error_log s2
            else error_log s2 @ [VR_ERROR_SENSOR_INIT_FAILED])"
    by blast
  have lock: "pthread_mutex_lock s = Inr (s\<lparr>g_system_mutex := True\<rparr>)"
    using assms by (simp add: pthread_mutex_lock_def)
  have log2: "error_log s2 = error_log s"
    by (simp add: s2_def)
  show ?thesis
    unfolding vr_embedded_init_def lock
    using init st lg log2
    by (simp add: s2_def [symmetric] Let_def vr_power_init_def vr_watchdog_init_def
        vr_telemetry_init_def vr_rabbitmq_init_def pthread_mutex_unlock_def zero_status_def
        split: if_splits)
qed

lemma handler_errors: "vr_error_handler c s = Inr s' \<Longrightarrow> errors s' = errors s + 1"
  by (cases "g_system_mutex s") (auto simp: handler_free handler_held split: if_splits)

lemma ticked_errors: "errors (ticked s) = errors s \<or> errors (ticked s) = errors s + 1"
  by (simp add: ticked_def)

lemma pass_errors_any:
  "errors (pass fp b s) = errors s \<or> errors (pass fp b s) = errors s + 1 \<or>
   errors (pass fp b s) = errors s + 2"
proof -
  have "errors (pass fp b s) = errors (telemetry_gate b (sensor_gate fp (ticked s)))"
    by (simp add: pass_def)
  moreover have "errors (sensor_gate fp (ticked s)) = errors (ticked s)"
    by simp
  ultimately show ?thesis
    using telemetry_gate_errors [of b "sensor_gate fp (ticked s)"] ticked_errors [of s]
    by auto
qed

lemma do_call_errors:
  assumes "do_call fp c s = Inr s'"
  shows "errors s' = errors s \<or> errors s' = errors s + 1 \<or> errors s' = errors s + 2"
proof (cases c)
  case (Report x)
  then show ?thesis using assms handler_errors by simp
next
  case Tick
  then show ?thesis using assms ticked_errors [of s] by (auto simp: tick_result split: if_splits)
next
  case (Pass b)
  then show ?thesis
    using assms pass_errors_any [of fp b s] by (auto simp: body_pass split: if_splits)
next
  case Update
  then show ?thesis using assms by (auto simp: vr_sensors_update_def Let_def)
next
  case (Send b)
  then show ?thesis using assms by (auto simp: send_packet_errors split: if_splits)
next
  case Feed
  then show ?thesis using assms by (auto simp: vr_watchdog_feed_def)
next
  case (SetRate r)
  then show ?thesis using assms by (auto simp: vr_telemetry_set_rate_def)
next
  case (Sleep l)
  have "errors (vr_power_enter_sleep l s) = errors s"
    by (simp add: vr_power_enter_sleep_def)
  then show ?thesis using Sleep assms by auto
next
  case WakeUp
  then show ?thesis using assms by (auto simp: vr_power_wake_up_def)
qed

lemma unat_grows:
  fixes e e' :: uint32_t
  assumes "e' = e \<or> e' = e + 1 \<or> e' = e + 2" and "unat e + 2 < 2 ^ 32"
  shows "unat e \<le> unat e' \<and> unat e' \<le> unat e + 2"
proof -
  have "unat (e + 1) = unat e + 1" and "unat (e + 2) = unat e + 2"
    using assms(2) by (simp_all add: unat_word_ariths)
  then show ?thesis
    using assms(1) by auto
qed

lemma run_calls_errors_grow:
  "run_calls fp cs s = Inr s' \<Longrightarrow> unat (errors s) + 2 * length cs < 2 ^ 32 \<Longrightarrow>
   unat (errors s) \<le> unat (errors s') \<and> unat (errors s') \<le> unat (errors s) + 2 * length cs"
proof (induction cs arbitrary: s)
  case Nil
  then show ?case by simp
next
  case (Cons c cs)
  from Cons.prems(1) obtain s1 where
    first: "do_call fp c s = Inr s1" and rest: "run_calls fp cs s1 = Inr s'"
    by (auto simp: and_then_eq_Inr)
  have "unat (errors s) + 2 < 2 ^ 32"
    using Cons.prems(2) by simp
  from unat_grows [OF do_call_errors [OF first] this]
  have one: "unat (errors s) \<le> unat (errors s1)" "unat (errors s1) \<le> unat (errors s) + 2"
    by simp_all
  then have "unat (errors s1) + 2 * length cs < 2 ^ 32"
    using Cons.prems(2) by simp
  from Cons.IH [OF rest this] one show ?case
    by simp
qed

lemma reset_result:
  assumes "\<not> g_system_mutex s"
  shows "\<exists>s'. vr_system_reset fp rand_value connect_ok s = Inr s' \<and>
           reset_count (g_embedded_status s') = 0 \<and>
           errors s' = (if vr_sensors_self_test rand_value then 0 else 1) \<and>
           sys_state s' = VR_SYSTEM_READY"
proof -
  define s1 where
    "s1 = s\<lparr>g_embedded_status :=
              (g_embedded_status s)
                \<lparr>reset_count := reset_count (g_embedded_status s) + 1, error_count := 0,
                 state := VR_SYSTEM_INIT\<rparr>\<rparr>"
  have "\<not> g_system_mutex s1"
    using assms by (simp add: s1_def)
  from init_result [OF this, of fp "Some (g_embedded_config s1)" rand_value connect_ok]
  show ?thesis
    unfolding vr_system_reset_def Let_def s1_def by blast
qed

text \<open>
  C2, as the code has it. \<^verbatim>\<open>vr_system_reset\<close> sets the state to Init and the error counter
  to 0 and then runs \<^verbatim>\<open>vr_embedded_init\<close> from that state. Called with the mutex free it
  returns, in the state Ready; the error counter is 0 afterwards when the self-test of
  that initialisation passes and 1 when it fails. Between resets, a sequence of reports, ticks,
  loop passes, sensor updates, sends, feeds, rate changes and sleeps that returns never
  lowers the error counter, as long as the counter does not wrap around.
\<close>

theorem reset_zeroes_errors_and_returns_ready:
  assumes "\<not> g_system_mutex s"
  shows "(\<exists>s1. sys_state s1 = VR_SYSTEM_INIT \<and> errors s1 = 0 \<and>
            vr_system_reset fp rand_value connect_ok s
              = vr_embedded_init fp (Some (g_embedded_config s)) rand_value connect_ok s1) \<and>
         (\<exists>s'. vr_system_reset fp rand_value connect_ok s = Inr s' \<and>
            errors s' = (if vr_sensors_self_test rand_value then 0 else 1) \<and>
            sys_state s' = VR_SYSTEM_READY) \<and>
         (\<forall>t'. run_calls fp calls t = Inr t' \<and> unat (errors t) + 2 * length calls < 2 ^ 32
               \<longrightarrow> unat (errors t) \<le> unat (errors t'))"
proof -
  define s1 where
    "s1 = s\<lparr>g_embedded_status :=
              (g_embedded_status s)
                \<lparr>reset_count := reset_count (g_embedded_status s) + 1, error_count := 0,
                 state := VR_SYSTEM_INIT\<rparr>\<rparr>"
  have "sys_state s1 = VR_SYSTEM_INIT \<and> errors s1 = 0 \<and>
        vr_system_reset fp rand_value connect_ok s
          = vr_embedded_init fp (Some (g_embedded_config s)) rand_value connect_ok s1"
    by (simp add: s1_def vr_system_reset_def Let_def)
  then show ?thesis
    using reset_result [OF assms, of fp rand_value connect_ok]
      run_calls_errors_grow [of fp calls t]
    by blast
qed

theorem reset_zeroes_errors_and_returns_ready_witness:
  "\<not> g_system_mutex errored \<and> errors errored = 6 \<and> vr_sensors_self_test 7 \<and>
   (\<exists>s'. vr_system_reset exact_fpu 7 True errored = Inr s' \<and> errors s' = 0 \<and>
         sys_state s' = VR_SYSTEM_READY) \<and>
   \<not> isl (run_calls exact_fpu [Send False, Tick] (ready_with_errors 2)) \<and>
   unat (errors (ready_with_errors 2)) + 2 * length [Send False, Tick] < 2 ^ 32 \<and>
   unat (errors (ready_with_errors 2))
     \<le> unat (errors (projr (run_calls exact_fpu [Send False, Tick] (ready_with_errors 2))))"
proof -
  have h: "\<not> g_system_mutex errored"
    by simp
  have t: "vr_sensors_self_test 7"
    by (simp add: vr_sensors_self_test_def)
  have small: "unat (errors (ready_with_errors 2)) + 2 * length [Send False, Tick] < 2 ^ 32"
    by simp
  have "\<not> tick_relocks (vr_telemetry_send_packet False (ready_with_errors 2))"
    by (simp add: tick_relocks_def send_packet_errors word_less_nat_alt)
  then have returns: "\<not> isl (run_calls exact_fpu [Send False, Tick] (ready_with_errors 2))"
    by (simp add: tick_result)
  then obtain t' where
    t': "run_calls exact_fpu [Send False, Tick] (ready_with_errors 2) = Inr t'"
    by (cases "run_calls exact_fpu [Send False, Tick] (ready_with_errors 2)") auto
  note inst = reset_zeroes_errors_and_returns_ready [OF h,
      of exact_fpu 7 True "[Send False, Tick]" "ready_with_errors 2"]
  from inst t' small have "unat (errors (ready_with_errors 2)) \<le> unat (errors t')"
    by blast
  moreover from inst t have
    "\<exists>s'. vr_system_reset exact_fpu 7 True errored = Inr s' \<and> errors s' = 0 \<and>
         sys_state s' = VR_SYSTEM_READY"
    by simp
  ultimately show ?thesis
    using h t returns small t' by simp
qed

text \<open>
  The claim as stated fails. A reset in the state \<open>errored\<close>, where the reset counter is 0,
  during which the self-test fails, returns with the error counter at 1 and the reset
  counter at 0: the \<^verbatim>\<open>memset\<close> of \<^verbatim>\<open>vr_embedded_init\<close> clears the counter that
  \<^verbatim>\<open>vr_system_reset\<close> has just incremented.
\<close>

theorem reset_counterexample:
  "\<not> g_system_mutex errored \<and>
   reset_count (g_embedded_status errored) = 0 \<and>
   \<not> isl (vr_system_reset exact_fpu 3 True errored) \<and>
   errors (projr (vr_system_reset exact_fpu 3 True errored)) = 1 \<and>
   reset_count (g_embedded_status (projr (vr_system_reset exact_fpu 3 True errored))) = 0"
proof -
  have f: "\<not> vr_sensors_self_test 3"
    by (simp add: vr_sensors_self_test_def)
  have "\<not> g_system_mutex errored"
    by simp
  from reset_result [OF this, of exact_fpu 3 True] obtain s' where
    "vr_system_reset exact_fpu 3 True errored = Inr s'" and
    "reset_count (g_embedded_status s') = 0" and "errors s' = 1"
    using f by auto
  moreover have "reset_count (g_embedded_status errored) = 0"
    by (simp add: errored_def ready_def)
  ultimately show ?thesis
    by simp
qed

text \<open>
  C7, as the code has it. \<^verbatim>\<open>vr_embedded_init\<close> sets the state to Ready and both flags to
  true after the subsystems are initialised, whether the self-test passed or not. Called
  with the mutex free it returns in the state Ready; a failed self-test leaves one
  reported sensor-init-failed error behind, a passed one none.
\<close>

theorem init_always_ready:
  assumes "\<not> g_system_mutex s"
  shows "\<exists>s'. vr_embedded_init fp config rand_value connect_ok s = Inr s' \<and>
           sys_state s' = VR_SYSTEM_READY \<and>
           sensors_initialized (g_embedded_status s') \<and>
           errors s' = (if vr_sensors_self_test rand_value then 0 else 1) \<and>
           error_log s' =
             (if vr_sensors_self_test rand_value then error_log s
              else error_log s @ [VR_ERROR_SENSOR_INIT_FAILED])"
  using init_result [OF assms, of fp config rand_value connect_ok] by blast

theorem init_always_ready_witness:
  "\<not> g_system_mutex (boot exact_fpu) \<and> vr_sensors_self_test 7 \<and>
   (\<exists>s'. vr_embedded_init exact_fpu None 7 True (boot exact_fpu) = Inr s' \<and>
         sys_state s' = VR_SYSTEM_READY \<and>
         sensors_initialized (g_embedded_status s') \<and>
         errors s' = 0 \<and>
         error_log s' = [])"
proof -
  have h: "\<not> g_system_mutex (boot exact_fpu)"
    by (simp add: boot_def)
  have t: "vr_sensors_self_test 7"
    by (simp add: vr_sensors_self_test_def)
  have "error_log (boot exact_fpu) = []"
    by (simp add: boot_def)
  then show ?thesis
    using h t init_always_ready [OF h, of exact_fpu None 7 True] by simp
qed

text \<open>
  The claim as stated fails. At program start with a \<^verbatim>\<open>rand()\<close> value of 3 the self-test
  fails, and \<^verbatim>\<open>vr_embedded_init\<close> returns in the state Ready all the same, with the sensors
  marked initialised and one error counted.
\<close>

theorem init_failed_self_test_counterexample:
  "\<not> vr_sensors_self_test 3 \<and>
   \<not> isl (vr_embedded_init exact_fpu None 3 True (boot exact_fpu)) \<and>
   sys_state (projr (vr_embedded_init exact_fpu None 3 True (boot exact_fpu)))
     = VR_SYSTEM_READY \<and>
   sensors_initialized
     (g_embedded_status (projr (vr_embedded_init exact_fpu None 3 True (boot exact_fpu)))) \<and>
   errors (projr (vr_embedded_init exact_fpu None 3 True (boot exact_fpu))) = 1"
proof -
  have f: "\<not> vr_sensors_self_test 3"
    by (simp add: vr_sensors_self_test_def)
  have "\<not> g_system_mutex (boot exact_fpu)"
    by (simp add: boot_def)
  from init_result [OF this, of exact_fpu None 3 True] obtain s' where
    "vr_embedded_init exact_fpu None 3 True (boot exact_fpu) = Inr s'" and
    "sys_state s' = VR_SYSTEM_READY" and "sensors_initialized (g_embedded_status s')" and
    "errors s' = 1"
    using f by auto
  then show ?thesis
    using f by simp
qed

section \<open>C3 and C8: a sink that fails\<close>

lemmas run_rules =
  word_le_nat_alt word_less_nat_alt replicate_numeral_unfold body_result tick_relocks_def
  ready_def exact_fpu_def default_config_def ticked_def sensor_gate_def telemetry_gate_def
  watchdog_gate_def power_gate_def vr_sensors_update_def Let_def vr_telemetry_send_packet_def
  vr_telemetry_is_ready_def vr_rabbitmq_is_connected_def vr_rabbitmq_send_telemetry_def
  vr_watchdog_feed_def vr_power_enter_sleep_def orientation_component_def radicand_def
  battery_value_def float_to_uint8_def c_trunc_def c_sqrt_def store_float_def

text \<open>
  C3, on the code. The program starts with the default configuration, the broker accepts
  the connection, and then every publish fails. A send is due every 16 ticks. After 96
  passes six sends have failed: the error counter is 6, above the threshold, the state is
  still Ready and nothing was reported through \<^verbatim>\<open>vr_error_handler\<close>. The tick of the last
  send was updated all the same.
\<close>

theorem failed_sends_do_not_escalate:
  "observed (vr_embedded_main_loop exact_fpu (replicate 96 False) (ready exact_fpu))
     = Inr (6, VR_SYSTEM_READY, [], 96)"
  by (simp add: run_rules observed_def)

text \<open>
  C8, on the code. In the same run the counter reaches 11 in pass 176. The tick handler of
  pass 177 takes the mutex, finds more than ten errors and calls \<^verbatim>\<open>vr_embedded_set_state\<close>,
  which locks the mutex the handler holds.
\<close>

theorem tick_handler_relocks:
  "vr_embedded_system_tick (ready_with_errors 11) = Inl Relock \<and>
   vr_embedded_main_loop exact_fpu (replicate 177 False) (ready exact_fpu) = Inl Relock"
proof
  show "vr_embedded_system_tick (ready_with_errors 11) = Inl Relock"
    by (simp add: tick_result tick_relocks_def word_less_nat_alt)
  show "vr_embedded_main_loop exact_fpu (replicate 177 False) (ready exact_fpu) = Inl Relock"
    by (simp add: run_rules)
qed

section \<open>C4: the sensor gate\<close>

lemma sensor_due_iff:
  assumes "unat (g_system_tick s - g_last_sensor_update s) = m" and "m < 2 ^ 32 - 1"
  shows "sensor_due s \<longleftrightarrow> unat (1000 div sensor_update_hz (g_embedded_config s)) \<le> m + 1"
proof -
  have shift: "g_system_tick s + 1 - g_last_sensor_update s
                 = (g_system_tick s - g_last_sensor_update s) + 1"
    by simp
  have "unat ((g_system_tick s - g_last_sensor_update s) + 1) = m + 1"
    using assms by (simp add: unat_word_ariths)
  then show ?thesis
    unfolding sensor_due_def word_le_nat_alt shift by simp
qed

lemma fold_pass_cadence:
  assumes "i = unat (1000 div sensor_update_hz (g_embedded_config s))"
    and "unat (g_system_tick s - g_last_sensor_update s) = m" and "m < i"
  shows "frame_counter (fold (pass fp) bs s)
           = frame_counter s + word_of_nat ((m + length bs) div i) \<and>
         unat (g_system_tick (fold (pass fp) bs s) - g_last_sensor_update (fold (pass fp) bs s))
           = (m + length bs) mod i"
  using assms
proof (induction bs arbitrary: s m)
  case Nil
  then show ?case by simp
next
  case (Cons b bs)
  have "i \<le> unat (1000 :: uint32_t)"
    unfolding Cons.prems(1) unat_div by (rule div_le_dividend)
  then have i_le: "i \<le> 1000" by simp
  then have m_small: "m < 2 ^ 32 - 1"
    using Cons.prems(3) by simp
  note due = sensor_due_iff [OF Cons.prems(2) m_small]
  have cfg: "i = unat (1000 div sensor_update_hz (g_embedded_config (pass fp b s)))"
    using Cons.prems(1) by simp
  show ?case
  proof (cases "sensor_due s")
    case True
    then have eq: "m + 1 = i"
      using due Cons.prems(1,3) by simp
    have zero: "unat (g_system_tick (pass fp b s) - g_last_sensor_update (pass fp b s)) = 0"
      using True by (simp add: pass_sensor)
    have pos: "0 < i" using eq by simp
    from Cons.IH [OF cfg zero pos]
    have "frame_counter (fold (pass fp) bs (pass fp b s))
            = frame_counter (pass fp b s) + word_of_nat (length bs div i)"
      and "unat (g_system_tick (fold (pass fp) bs (pass fp b s))
                 - g_last_sensor_update (fold (pass fp) bs (pass fp b s))) = length bs mod i"
      by simp_all
    moreover have sum: "m + length (b # bs) = i + length bs"
      using eq by simp
    have "(m + length (b # bs)) div i = 1 + length bs div i"
      and "(m + length (b # bs)) mod i = length bs mod i"
      unfolding sum using pos by simp_all
    ultimately show ?thesis
      using True by (simp add: pass_sensor)
  next
    case False
    then have lt: "m + 1 < i"
      using due Cons.prems(1) by simp
    have next_m: "unat (g_system_tick (pass fp b s) - g_last_sensor_update (pass fp b s)) = m + 1"
    proof -
      have "g_system_tick s + 1 - g_last_sensor_update s
              = (g_system_tick s - g_last_sensor_update s) + 1"
        by simp
      moreover have "unat ((g_system_tick s - g_last_sensor_update s) + 1) = m + 1"
        using Cons.prems(2) m_small by (simp add: unat_word_ariths)
      ultimately show ?thesis
        using False by (simp only: pass_sensor pass_fields if_False)
    qed
    from Cons.IH [OF cfg next_m lt] show ?thesis
      using False by (simp add: pass_sensor)
  qed
qed

lemma fold_pass_every_tick:
  assumes "1000 div sensor_update_hz (g_embedded_config s) = 0"
  shows "frame_counter (fold (pass fp) bs s) = frame_counter s + word_of_nat (length bs)"
  using assms
proof (induction bs arbitrary: s)
  case Nil
  then show ?case by simp
next
  case (Cons b bs)
  have "sensor_due s"
    using Cons.prems by (simp add: sensor_due_def)
  moreover have "frame_counter (fold (pass fp) bs (pass fp b s))
                   = frame_counter (pass fp b s) + word_of_nat (length bs)"
    using Cons.prems by (intro Cons.IH) simp
  ultimately show ?case
    by (simp add: pass_sensor)
qed

text \<open>
  C4. A run of the loop that starts when a sensor update has just happened (as at program
  start, where both ticks are 0), with the mutex free, the voltage not low, non-zero rates
  and at most ten errors in total once the failed publishes of the run are counted. The
  run returns, and the frame counter, which \<^verbatim>\<open>vr_sensors_update\<close> increments once per call,
  tells how often the update fired. For a rate \<open>r\<close> of at most 1000 the interval is
  \<open>\<lfloor>1000 / r\<rfloor>\<close>, at least 1, and after \<open>n\<close> passes the update has fired \<open>n div interval\<close>
  times, the last time \<open>n mod interval\<close> ticks ago. This holds for every \<open>n\<close>, so the update
  fires in the passes whose number is a multiple of the interval and in no other. For a
  rate above 1000 the interval is 0 and the update fires in every pass.
\<close>

theorem sensor_update_cadence:
  assumes "\<not> g_system_mutex s" and "\<not> g_system_voltage s < 3" and "g_system_running s"
    and "sensor_update_hz (g_embedded_config s) = r" and "r \<noteq> 0"
    and "telemetry_rate_hz (g_embedded_config s) \<noteq> 0"
    and "unat (errors s) + length (filter Not bs) \<le> 10"
    and "g_last_sensor_update s = g_system_tick s"
  shows "\<exists>s'. vr_embedded_main_loop fp bs s = Inr s' \<and>
           g_system_tick s' = g_system_tick s + word_of_nat (length bs) \<and>
           (if unat r \<le> 1000
            then unat (1000 div r) = 1000 div unat r \<and> 1 \<le> 1000 div unat r \<and>
                 frame_counter s'
                   = frame_counter s + word_of_nat (length bs div (1000 div unat r)) \<and>
                 unat (g_system_tick s' - g_last_sensor_update s')
                   = length bs mod (1000 div unat r)
            else 1000 div r = 0 \<and>
                 frame_counter s' = frame_counter s + word_of_nat (length bs))"
proof -
  let ?s' = "fold (pass fp) bs s"
  have run: "vr_embedded_main_loop fp bs s = Inr ?s'"
    using assms by (intro loop_returns) simp_all
  have interval: "unat (1000 div r) = 1000 div unat r"
    by (simp add: unat_div)
  have rate_pos: "0 < unat r"
    using assms(5) by (simp add: unat_gt_0)
  have cadence: "unat r \<le> 1000 \<Longrightarrow>
      1 \<le> 1000 div unat r \<and>
      frame_counter ?s' = frame_counter s + word_of_nat (length bs div (1000 div unat r)) \<and>
      unat (g_system_tick ?s' - g_last_sensor_update ?s') = length bs mod (1000 div unat r)"
  proof -
    assume le: "unat r \<le> 1000"
    have pos: "0 < 1000 div unat r"
      using le rate_pos by (simp add: div_greater_zero_iff)
    have i: "1000 div unat r = unat (1000 div sensor_update_hz (g_embedded_config s))"
      using interval assms(4) by simp
    have zero: "unat (g_system_tick s - g_last_sensor_update s) = 0"
      using assms(8) by simp
    from fold_pass_cadence [OF i zero pos, of fp bs] pos show ?thesis
      by simp
  qed
  have every: "\<not> unat r \<le> 1000 \<Longrightarrow>
      1000 div r = 0 \<and> frame_counter ?s' = frame_counter s + word_of_nat (length bs)"
  proof -
    assume gt: "\<not> unat r \<le> 1000"
    have "unat (1000 div r) = 0"
      unfolding interval using gt by simp
    then have z: "1000 div r = 0"
      by (simp add: unat_eq_0)
    then have "1000 div sensor_update_hz (g_embedded_config s) = 0"
      using assms(4) by simp
    from fold_pass_every_tick [OF this, of fp bs] z show ?thesis
      by simp
  qed
  show ?thesis
    using run interval cadence every by (cases "unat r \<le> 1000") simp_all
qed

theorem sensor_update_cadence_witness:
  "\<not> g_system_mutex (ready_at_rate 250) \<and> \<not> g_system_voltage (ready_at_rate 250) < 3 \<and>
   g_system_running (ready_at_rate 250) \<and>
   sensor_update_hz (g_embedded_config (ready_at_rate 250)) = 250 \<and>
   telemetry_rate_hz (g_embedded_config (ready_at_rate 250)) \<noteq> 0 \<and>
   unat (errors (ready_at_rate 250)) + length (filter Not (replicate 10 True)) \<le> 10 \<and>
   g_last_sensor_update (ready_at_rate 250) = g_system_tick (ready_at_rate 250) \<and>
   (\<exists>s'. vr_embedded_main_loop exact_fpu (replicate 10 True) (ready_at_rate 250) = Inr s' \<and>
         g_system_tick s' = 10 \<and> frame_counter s' = 2 \<and>
         unat (g_system_tick s' - g_last_sensor_update s') = 2)"
proof -
  have h: "\<not> g_system_mutex (ready_at_rate 250)" "\<not> g_system_voltage (ready_at_rate 250) < 3"
    "g_system_running (ready_at_rate 250)"
    "sensor_update_hz (g_embedded_config (ready_at_rate 250)) = 250" "(250 :: uint32_t) \<noteq> 0"
    "telemetry_rate_hz (g_embedded_config (ready_at_rate 250)) \<noteq> 0"
    "unat (errors (ready_at_rate 250)) + length (filter Not (replicate 10 True)) \<le> 10"
    "g_last_sensor_update (ready_at_rate 250) = g_system_tick (ready_at_rate 250)"
    by simp_all
  from sensor_update_cadence [OF h, of exact_fpu]
  have "\<exists>s'. vr_embedded_main_loop exact_fpu (replicate 10 True) (ready_at_rate 250) = Inr s' \<and>
         g_system_tick s' = 10 \<and> frame_counter s' = 2 \<and>
         unat (g_system_tick s' - g_last_sensor_update s') = 2"
    by simp
  then show ?thesis
    using h by simp
qed

section \<open>C5: the watchdog gate\<close>

lemma watchdog_gate_feed:
  "g_last_watchdog_feed (watchdog_gate s) =
     (if watchdog_enabled (g_embedded_config s)
         \<and> watchdog_timeout_ms (g_embedded_config s) div 2
              \<le> g_system_tick s - g_last_watchdog_feed s
      then g_system_tick s else g_last_watchdog_feed s)"
  "last_watchdog_reset (g_embedded_status (watchdog_gate s)) =
     (if watchdog_enabled (g_embedded_config s)
         \<and> watchdog_timeout_ms (g_embedded_config s) div 2
              \<le> g_system_tick s - g_last_watchdog_feed s
      then g_system_tick s else last_watchdog_reset (g_embedded_status s))"
  by (simp_all add: watchdog_gate_def vr_watchdog_feed_def)

lemma pass_watchdog:
  "g_last_watchdog_feed (pass fp b s) =
     (if watchdog_enabled (g_embedded_config s)
         \<and> watchdog_timeout_ms (g_embedded_config s) div 2
              \<le> g_system_tick s + 1 - g_last_watchdog_feed s
      then g_system_tick s + 1 else g_last_watchdog_feed s)"
  "last_watchdog_reset (g_embedded_status (pass fp b s)) =
     (if watchdog_enabled (g_embedded_config s)
         \<and> watchdog_timeout_ms (g_embedded_config s) div 2
              \<le> g_system_tick s + 1 - g_last_watchdog_feed s
      then g_system_tick s + 1 else last_watchdog_reset (g_embedded_status s))"
  by (simp_all add: pass_def watchdog_gate_feed ticked_def)

text \<open>
  C5, as the code has it. A pass that starts with the mutex free, the voltage not low, at
  most ten errors and non-zero rates returns. With the watchdog enabled it feeds the
  watchdog exactly when the tick it has just counted is at least \<open>\<lfloor>timeout / 2\<rfloor>\<close> past the
  last feed, and it prints no error report at all: the loop never compares the time since
  the last feed with the timeout, and nothing reports a watchdog timeout.
\<close>

theorem watchdog_feed_cadence:
  assumes "\<not> g_system_mutex s" and "\<not> g_system_voltage s < 3" and "unat (errors s) \<le> 10"
    and "sensor_update_hz (g_embedded_config s) \<noteq> 0"
    and "telemetry_rate_hz (g_embedded_config s) \<noteq> 0"
    and "watchdog_enabled (g_embedded_config s)"
  shows "\<exists>s'. main_loop_body fp b s = Inr s' \<and>
           unat (watchdog_timeout_ms (g_embedded_config s) div 2)
             = unat (watchdog_timeout_ms (g_embedded_config s)) div 2 \<and>
           (if watchdog_timeout_ms (g_embedded_config s) div 2
                 \<le> g_system_tick s + 1 - g_last_watchdog_feed s
            then g_last_watchdog_feed s' = g_system_tick s + 1 \<and>
                 last_watchdog_reset (g_embedded_status s') = g_system_tick s + 1
            else g_last_watchdog_feed s' = g_last_watchdog_feed s \<and>
                 last_watchdog_reset (g_embedded_status s')
                   = last_watchdog_reset (g_embedded_status s)) \<and>
           error_log s' = error_log s \<and>
           sys_state s' = sys_state s"
proof -
  have "\<not> tick_relocks s"
    using not_relocks assms(1-3) by blast
  then have "main_loop_body fp b s = Inr (pass fp b s)"
    using assms(4,5) by (simp add: body_pass)
  moreover have "unat (watchdog_timeout_ms (g_embedded_config s) div 2)
                   = unat (watchdog_timeout_ms (g_embedded_config s)) div 2"
    by (simp add: unat_div)
  ultimately show ?thesis
    using assms(2,6) by (simp add: pass_watchdog pass_error_log)
qed

theorem watchdog_feed_cadence_witness:
  "\<not> g_system_mutex stalled \<and> \<not> g_system_voltage stalled < 3 \<and> unat (errors stalled) \<le> 10 \<and>
   sensor_update_hz (g_embedded_config stalled) \<noteq> 0 \<and>
   telemetry_rate_hz (g_embedded_config stalled) \<noteq> 0 \<and>
   watchdog_enabled (g_embedded_config stalled) \<and>
   (\<exists>s'. main_loop_body exact_fpu True stalled = Inr s' \<and>
         g_last_watchdog_feed s' = 10000 \<and>
         last_watchdog_reset (g_embedded_status s') = 10000 \<and>
         error_log s' = [] \<and> sys_state s' = VR_SYSTEM_READY)"
proof -
  have h: "\<not> g_system_mutex stalled" "\<not> g_system_voltage stalled < 3"
    "unat (errors stalled) \<le> 10"
    "sensor_update_hz (g_embedded_config stalled) \<noteq> 0"
    "telemetry_rate_hz (g_embedded_config stalled) \<noteq> 0"
    "watchdog_enabled (g_embedded_config stalled)"
    by simp_all
  from watchdog_feed_cadence [OF h, of exact_fpu True]
  have "\<exists>s'. main_loop_body exact_fpu True stalled = Inr s' \<and>
         g_last_watchdog_feed s' = 10000 \<and>
         last_watchdog_reset (g_embedded_status s') = 10000 \<and>
         error_log s' = [] \<and> sys_state s' = VR_SYSTEM_READY"
    by (simp add: word_le_nat_alt)
  then show ?thesis
    using h by simp
qed

text \<open>
  The claim as stated fails. In the state \<open>stalled\<close> the watchdog is enabled and the last
  feed is 10000 ticks old when the pass has counted its tick, twice the timeout. The pass
  returns, feeds the watchdog, reports nothing and counts no error.
\<close>

theorem watchdog_expiry_counterexample:
  "watchdog_enabled (g_embedded_config stalled) \<and>
   watchdog_timeout_ms (g_embedded_config stalled)
     \<le> g_system_tick stalled + 1 - last_watchdog_reset (g_embedded_status stalled) \<and>
   \<not> isl (main_loop_body exact_fpu True stalled) \<and>
   VR_ERROR_WATCHDOG_TIMEOUT \<notin> set (error_log (projr (main_loop_body exact_fpu True stalled))) \<and>
   error_log (projr (main_loop_body exact_fpu True stalled)) = [] \<and>
   errors (projr (main_loop_body exact_fpu True stalled)) = 0 \<and>
   sys_state (projr (main_loop_body exact_fpu True stalled)) = VR_SYSTEM_READY"
proof -
  have "\<not> tick_relocks stalled"
    by (simp add: tick_relocks_def)
  then have run: "main_loop_body exact_fpu True stalled = Inr (pass exact_fpu True stalled)"
    by (simp add: body_pass)
  have "errors (pass exact_fpu True stalled) = 0"
    using pass_errors [of stalled exact_fpu True] by simp
  then show ?thesis
    unfolding run by (simp add: pass_error_log word_le_nat_alt)
qed

section \<open>Rounding\<close>

lemma ieee_mono: "ieee_rounding r \<Longrightarrow> a \<le> b \<Longrightarrow> r a \<le> r b"
  by (simp add: ieee_rounding_def)

lemma ieee_exact:
  "ieee_rounding r \<Longrightarrow> \<bar>m\<bar> \<le> 2 ^ 24 \<Longrightarrow> k \<le> 64 \<Longrightarrow> r (of_int m / 2 ^ k) = of_int m / 2 ^ k"
  by (simp add: ieee_rounding_def)

lemma ieee_exact_int:
  assumes "ieee_rounding r" and "\<bar>m\<bar> \<le> 2 ^ 24"
  shows "r (of_int m) = of_int m"
  using ieee_exact [OF assms, of 0] by simp

lemma ieee_exact_pow2:
  assumes "ieee_rounding r" and "k \<le> 64"
  shows "r (1 / 2 ^ k) = 1 / 2 ^ k" and "r (- (1 / 2 ^ k)) = - (1 / 2 ^ k)"
  using ieee_exact [OF assms(1) _ assms(2), of 1] ieee_exact [OF assms(1) _ assms(2), of "-1"]
  by simp_all

lemma ieee_between:
  assumes "ieee_rounding r" and "lo \<le> v" and "v \<le> hi" and "r lo = lo" and "r hi = hi"
  shows "lo \<le> r v \<and> r v \<le> hi"
  using ieee_mono [OF assms(1,2)] ieee_mono [OF assms(1,3)] assms(4,5) by simp

lemma ieee_exact_values:
  assumes "ieee_rounding r"
  shows "r 0 = 0" and "r 1 = 1" and "r (1 / 2) = 1 / 2" and "r (1 / 4) = 1 / 4"
    and "r (1 / 8) = 1 / 8" and "r (1 / 16) = 1 / 16" and "r (1 / 64) = 1 / 64"
    and "r (1 / 256) = 1 / 256" and "r (1 / 1024) = 1 / 1024"
    and "r (- (1 / 4)) = - (1 / 4)" and "r (- (1 / 8)) = - (1 / 8)"
    and "r (- (1 / 16)) = - (1 / 16)"
    and "r (3 / 32) = 3 / 32" and "r 103 = 103" and "r (- 3) = - 3" and "r 1100 = 1100"
  using ieee_exact_int [OF assms, of 0] ieee_exact_int [OF assms, of 1]
    ieee_exact_pow2 [OF assms, of 1] ieee_exact_pow2 [OF assms, of 2]
    ieee_exact_pow2 [OF assms, of 3] ieee_exact_pow2 [OF assms, of 4]
    ieee_exact_pow2 [OF assms, of 6] ieee_exact_pow2 [OF assms, of 8]
    ieee_exact_pow2 [OF assms, of 10]
    ieee_exact [OF assms, of 3 5] ieee_exact_int [OF assms, of 103]
    ieee_exact_int [OF assms, of "-3"] ieee_exact_int [OF assms, of 1100]
  by simp_all

section \<open>C6: the quaternion reconstruction\<close>

lemma square_bound:
  fixes x :: real
  assumes "\<bar>x\<bar> \<le> a"
  shows "0 \<le> x * x" and "x * x \<le> a * a"
proof -
  show "0 \<le> x * x" by simp
  have "\<bar>x\<bar> * \<bar>x\<bar> \<le> a * a"
    using assms by (intro mult_mono) simp_all
  then show "x * x \<le> a * a"
    by (simp add: abs_mult_self_eq)
qed

lemma component_bound:
  assumes r32: "ieee_rounding (f32 fp)" and r64: "ieee_rounding (f64 fp)"
    and sin_le: "\<forall>v. \<bar>c_sin fp v\<bar> \<le> 1"
    and amp: "0 \<le> amp" "amp \<le> A"
    and exact: "f32 fp A = A" "f32 fp (- A) = - A" "f64 fp A = A" "f64 fp (- A) = - A"
  shows "\<bar>orientation_component fp t freq amp\<bar> \<le> A"
proof -
  define c where "c = f32 fp amp"
  define p where "p = c_sin fp (f32 fp (t * f32 fp freq)) * c"
  have c: "0 \<le> c \<and> c \<le> A"
    unfolding c_def using ieee_between [OF r32 amp ieee_exact_values(1) [OF r32] exact(1)] .
  have "\<bar>p\<bar> = \<bar>c_sin fp (f32 fp (t * f32 fp freq))\<bar> * c"
    unfolding p_def using c by (simp add: abs_mult)
  also have "\<dots> \<le> 1 * c"
    using sin_le c by (intro mult_right_mono) simp_all
  finally have "\<bar>p\<bar> \<le> A"
    using c by simp
  then have p: "- A \<le> p" "p \<le> A"
    by simp_all
  have d: "- A \<le> f64 fp p \<and> f64 fp p \<le> A"
    using ieee_between [OF r64 p exact(4,3)] .
  then have "- A \<le> f32 fp (f64 fp p) \<and> f32 fp (f64 fp p) \<le> A"
    using ieee_between [OF r32 _ _ exact(2,1), of "f64 fp p"] by simp
  then show ?thesis
    by (simp add: orientation_component_def p_def c_def abs_le_iff)
qed

lemma radicand_bound:
  assumes r32: "ieee_rounding (f32 fp)"
    and x: "\<bar>x\<bar> \<le> 1 / 8" and y: "\<bar>y\<bar> \<le> 1 / 4" and z: "\<bar>z\<bar> \<le> 1 / 16"
  shows "1 / 2 \<le> radicand fp x y z"
proof -
  note ex = ieee_exact_values [OF r32]
  have xx: "0 \<le> f32 fp (x * x) \<and> f32 fp (x * x) \<le> 1 / 64"
    using ieee_between [OF r32 square_bound(1) [OF x] _ ex(1) ex(7)] square_bound(2) [OF x]
    by simp
  have yy: "0 \<le> f32 fp (y * y) \<and> f32 fp (y * y) \<le> 1 / 16"
    using ieee_between [OF r32 square_bound(1) [OF y] _ ex(1) ex(6)] square_bound(2) [OF y]
    by simp
  have zz: "0 \<le> f32 fp (z * z) \<and> f32 fp (z * z) \<le> 1 / 256"
    using ieee_between [OF r32 square_bound(1) [OF z] _ ex(1) ex(8)] square_bound(2) [OF z]
    by simp
  have s1: "0 \<le> f32 fp (f32 fp (x * x) + f32 fp (y * y)) \<and>
            f32 fp (f32 fp (x * x) + f32 fp (y * y)) \<le> 1 / 8"
    using ieee_between [OF r32 _ _ ex(1) ex(5), of "f32 fp (x * x) + f32 fp (y * y)"] xx yy
    by simp
  have s2: "0 \<le> f32 fp (f32 fp (f32 fp (x * x) + f32 fp (y * y)) + f32 fp (z * z)) \<and>
            f32 fp (f32 fp (f32 fp (x * x) + f32 fp (y * y)) + f32 fp (z * z)) \<le> 1 / 4"
    using ieee_between [OF r32 _ _ ex(1) ex(4),
        of "f32 fp (f32 fp (x * x) + f32 fp (y * y)) + f32 fp (z * z)"] s1 zz
    by simp
  have "1 / 2 \<le> f32 fp (1 - f32 fp (f32 fp (f32 fp (x * x) + f32 fp (y * y)) + f32 fp (z * z)))"
    using ieee_between [OF r32 _ _ ex(3) ex(2),
        of "1 - f32 fp (f32 fp (f32 fp (x * x) + f32 fp (y * y)) + f32 fp (z * z))"] s2
    by simp
  then show ?thesis
    by (simp add: radicand_def)
qed

lemma update_packet:
  "g_telemetry_packet (vr_sensors_update fp s) =
     (let t = f32 fp (simulation_time s + f32 fp (1 / 1000));
          x = orientation_component fp t (2 / 10) (1 / 10);
          y = orientation_component fp t (15 / 100) (2 / 10);
          z = orientation_component fp t (1 / 10) (5 / 100)
      in \<lparr>frame_id = frame_counter s, qx = x, qy = y, qz = z,
          qw = store_float fp (c_sqrt fp (radicand fp x y z)),
          battery_level = float_to_uint8 (battery_value fp t)\<rparr>)"
  by (simp add: vr_sensors_update_def Let_def)

text \<open>
  C6. Whatever the simulation time, the radicand that \<^verbatim>\<open>vr_sensors_update\<close> hands to \<^verbatim>\<open>sqrt\<close>
  is at least 1/2, so \<^verbatim>\<open>head_orientation.w\<close> is never a NaN. The amplitudes 0.1, 0.2 and 0.05
  bound the sum of the squares by 1/4. This holds for every rounding of single and double
  precision that is monotone and exact on the binary fractions, and every sine whose
  values lie in \<open>[-1, 1]\<close>.
\<close>

theorem quaternion_w_never_nan:
  assumes "ieee_rounding (f32 fp)" and "ieee_rounding (f64 fp)"
    and "\<forall>v. \<bar>c_sin fp v\<bar> \<le> 1"
  shows "qw (g_telemetry_packet (vr_sensors_update fp s)) \<noteq> NaN \<and>
         1 / 2 \<le> radicand fp (qx (g_telemetry_packet (vr_sensors_update fp s)))
                             (qy (g_telemetry_packet (vr_sensors_update fp s)))
                             (qz (g_telemetry_packet (vr_sensors_update fp s)))"
proof -
  define t where "t = f32 fp (simulation_time s + f32 fp (1 / 1000))"
  define x where "x = orientation_component fp t (2 / 10) (1 / 10)"
  define y where "y = orientation_component fp t (15 / 100) (2 / 10)"
  define z where "z = orientation_component fp t (1 / 10) (5 / 100)"
  note e32 = ieee_exact_values [OF assms(1)] and e64 = ieee_exact_values [OF assms(2)]
  have x: "\<bar>x\<bar> \<le> 1 / 8"
    unfolding x_def
    by (rule component_bound [OF assms _ _ e32(5) e32(11) e64(5) e64(11)]) simp_all
  have y: "\<bar>y\<bar> \<le> 1 / 4"
    unfolding y_def
    by (rule component_bound [OF assms _ _ e32(4) e32(10) e64(4) e64(10)]) simp_all
  have z: "\<bar>z\<bar> \<le> 1 / 16"
    unfolding z_def
    by (rule component_bound [OF assms _ _ e32(6) e32(12) e64(6) e64(12)]) simp_all
  have rad: "1 / 2 \<le> radicand fp x y z"
    using radicand_bound [OF assms(1) x y z] .
  then have "store_float fp (c_sqrt fp (radicand fp x y z)) \<noteq> NaN"
    by (simp add: c_sqrt_def store_float_def)
  then show ?thesis
    using rad by (simp add: update_packet Let_def t_def x_def y_def z_def)
qed

theorem quaternion_w_never_nan_witness:
  "ieee_rounding (f32 exact_fpu) \<and> ieee_rounding (f64 exact_fpu) \<and>
   (\<forall>v. \<bar>c_sin exact_fpu v\<bar> \<le> 1) \<and>
   qw (g_telemetry_packet (vr_sensors_update exact_fpu (ready exact_fpu))) \<noteq> NaN"
proof -
  have h: "ieee_rounding (f32 exact_fpu)" "ieee_rounding (f64 exact_fpu)"
    "\<forall>v. \<bar>c_sin exact_fpu v\<bar> \<le> 1"
    by (simp_all add: exact_fpu_def ieee_rounding_def)
  show ?thesis
    using h quaternion_w_never_nan [OF h, of "ready exact_fpu"] by simp
qed

section \<open>C9: the battery level\<close>

lemma update_simulation_time:
  "simulation_time (vr_sensors_update fp s) = f32 fp (simulation_time s + f32 fp (1 / 1000))"
  by (simp add: vr_sensors_update_def Let_def)

lemma time_step_lower:
  assumes "ieee_rounding (f32 fp)"
  shows "1 / 1024 \<le> f32 fp (1 / 1000)"
  using ieee_mono [OF assms, of "1 / 1024" "1 / 1000"] ieee_exact_values(9) [OF assms] by simp

lemma simulation_time_lower:
  assumes r32: "ieee_rounding (f32 fp)" and start: "0 \<le> simulation_time s"
  shows "real (min n (2 ^ 24)) / 1024 \<le> simulation_time ((vr_sensors_update fp ^^ n) s)"
proof (induction n)
  case 0
  then show ?case using start by simp
next
  case (Suc n)
  define m where "m = min (Suc n) (2 ^ 24)"
  have exact: "f32 fp (real m / 1024) = real m / 1024"
  proof -
    have "\<bar>int m\<bar> \<le> 2 ^ 24"
      by (simp add: m_def)
    from ieee_exact [OF r32 this, of 10] show ?thesis
      by simp
  qed
  have "real m \<le> real (min n (2 ^ 24)) + 1"
    by (simp add: m_def min_def)
  then have "real m / 1024 \<le> real (min n (2 ^ 24)) / 1024 + 1 / 1024"
    by (simp add: field_simps)
  also have "\<dots> \<le> simulation_time ((vr_sensors_update fp ^^ n) s) + f32 fp (1 / 1000)"
    using Suc.IH time_step_lower [OF r32] by simp
  finally have "f32 fp (real m / 1024)
      \<le> f32 fp (simulation_time ((vr_sensors_update fp ^^ n) s) + f32 fp (1 / 1000))"
    by (rule ieee_mono [OF r32])
  then show ?case
    unfolding exact by (simp add: update_simulation_time m_def)
qed

lemma float_to_uint8_negative: "v \<le> - 1 \<Longrightarrow> float_to_uint8 v = None"
proof -
  assume le: "v \<le> - 1"
  then have "\<lceil>v\<rceil> \<le> - 1"
    by (simp add: ceiling_le_iff)
  then show ?thesis
    using le by (simp add: float_to_uint8_def c_trunc_def)
qed

lemma battery_value_upper:
  assumes r32: "ieee_rounding (f32 fp)" and late: "1100 \<le> t"
  shows "battery_value fp t \<le> - 3"
proof -
  note ex = ieee_exact_values [OF r32]
  have k: "3 / 32 \<le> f32 fp (1 / 10)"
    using ieee_mono [OF r32, of "3 / 32" "1 / 10"] ex(13) by simp
  have "103 \<le> 1100 * (3 / 32 :: real)"
    by simp
  also have "\<dots> \<le> t * f32 fp (1 / 10)"
    using late k by (intro mult_mono) simp_all
  finally have "f32 fp 103 \<le> f32 fp (t * f32 fp (1 / 10))"
    by (rule ieee_mono [OF r32])
  then have "100 - f32 fp (t * f32 fp (1 / 10)) \<le> - 3"
    unfolding ex(14) by simp
  then have "f32 fp (100 - f32 fp (t * f32 fp (1 / 10))) \<le> f32 fp (- 3)"
    by (rule ieee_mono [OF r32])
  then show ?thesis
    unfolding ex(15) by (simp add: battery_value_def)
qed

lemma update_battery_undefined:
  assumes r32: "ieee_rounding (f32 fp)" and late: "1100 \<le> simulation_time s"
  shows "battery_level (g_telemetry_packet (vr_sensors_update fp s)) = None"
proof -
  have "1100 \<le> simulation_time s + f32 fp (1 / 1000)"
    using late time_step_lower [OF r32] by simp
  then have "f32 fp 1100 \<le> f32 fp (simulation_time s + f32 fp (1 / 1000))"
    by (rule ieee_mono [OF r32])
  then have "1100 \<le> f32 fp (simulation_time s + f32 fp (1 / 1000))"
    unfolding ieee_exact_values(16) [OF r32] .
  from battery_value_upper [OF r32 this]
  have "float_to_uint8 (battery_value fp (f32 fp (simulation_time s + f32 fp (1 / 1000)))) = None"
    by (intro float_to_uint8_negative) simp
  then show ?thesis
    by (simp add: update_packet Let_def)
qed

text \<open>
  C9, on the code. \<^verbatim>\<open>vr_sensors_update\<close> converts \<^verbatim>\<open>100.0f - simulation_time * 0.1f\<close> to
  \<^verbatim>\<open>uint8_t\<close> with a cast and no clamp. Each update adds at least 1/1024 to the simulation
  time, so after 1126400 updates from program start the time is at least 1100 s, the
  value is at most -3, and the conversion of every later update is undefined.
\<close>

theorem battery_conversion_undefined:
  assumes "ieee_rounding (f32 fp)" and "1126400 \<le> n"
  shows "battery_level (g_telemetry_packet ((vr_sensors_update fp ^^ Suc n) (boot fp))) = None"
proof -
  have "(1100 :: real) = real (min (1126400 :: nat) (2 ^ 24)) / 1024"
    by simp
  also have "\<dots> \<le> real (min n (2 ^ 24)) / 1024"
    using assms(2) by (simp add: divide_right_mono min_le_iff_disj)
  also have "\<dots> \<le> simulation_time ((vr_sensors_update fp ^^ n) (boot fp))"
    by (rule simulation_time_lower [OF assms(1)]) (simp add: boot_def)
  finally show ?thesis
    using update_battery_undefined [OF assms(1)] by simp
qed

theorem battery_conversion_undefined_witness:
  "ieee_rounding (f32 exact_fpu) \<and> (1126400 :: nat) \<le> 1126400 \<and>
   battery_level
     (g_telemetry_packet ((vr_sensors_update exact_fpu ^^ Suc 1126400) (boot exact_fpu))) = None"
proof -
  have h: "ieee_rounding (f32 exact_fpu)" "(1126400 :: nat) \<le> 1126400"
    by simp_all
  show ?thesis
    using h battery_conversion_undefined [OF h] by simp
qed

section \<open>C10: a packet that is not sent\<close>

text \<open>
  C10. When telemetry is not ready, that is when the communication-ready flag is false or
  the broker is not connected, \<^verbatim>\<open>vr_telemetry_send_packet\<close> returns the state it was given:
  nothing is published, the error counter and every other variable keep their values.
\<close>

theorem send_packet_not_ready_is_noop:
  "\<not> vr_telemetry_is_ready s \<Longrightarrow> vr_telemetry_send_packet publish_ok s = s"
  by (simp add: vr_telemetry_send_packet_def)

theorem send_packet_not_ready_is_noop_witness:
  "\<not> vr_telemetry_is_ready disconnected \<and>
   vr_telemetry_send_packet False disconnected = disconnected \<and>
   published (vr_telemetry_send_packet False disconnected) = [] \<and>
   errors (vr_telemetry_send_packet False disconnected) = 0"
proof -
  have h: "\<not> vr_telemetry_is_ready disconnected"
    by (simp add: vr_telemetry_is_ready_def vr_rabbitmq_is_connected_def disconnected_def)
  have "published disconnected = []" and "errors disconnected = 0"
    by (simp_all add: disconnected_def ready_def)
  then show ?thesis
    using h send_packet_not_ready_is_noop [OF h, of False] by simp
qed

end
